theory Spec2Isabelle
  imports Complex_Main "HOL-Library.Word" "HOL-Library.Sublist"
begin

text \<open>
  The API route handlers of the application (cover letter, resume generation, resume
  tailoring, resume upload, and the report of the environment keys), each as a function
  from the environment, the outside world and a request to the events the handler causes
  and the response it returns. Every early \<open>return\<close> and every \<open>throw\<close> that
  reaches the handler's \<open>catch\<close> is a branch. The identity provider, the store, the
  completion API and the parsing libraries are parameters: the theorems hold for every
  behaviour of theirs. A request body is any JSON value; a field of the wrong type makes
  the handler throw a \<open>TypeError\<close> where the code calls \<open>trim\<close> on it.
\<close>

section \<open>JavaScript strings\<close>

text \<open>
  A JavaScript string is a sequence of UTF-16 code units, and \<open>.length\<close> counts code
  units. The routes compare lengths against 200 and trim Unicode white space, so strings
  are lists of 16-bit words; \<open>js\<close> embeds an ASCII literal.
\<close>

type_synonym jschar = "16 word"
type_synonym jsstring = "jschar list"

definition js :: "string \<Rightarrow> jsstring" where
  "js s = map of_char s"

definition CR :: jschar where "CR = 0x0D"
definition LF :: jschar where "LF = 0x0A"
definition SP :: jschar where "SP = 0x20"
definition TAB :: jschar where "TAB = 0x09"

text \<open>
  The code units \<open>String.prototype.trim\<close> strips: ECMAScript WhiteSpace and
  LineTerminator (all of them lie in the basic plane, one code unit each).
\<close>

definition is_js_whitespace :: "jschar \<Rightarrow> bool" where
  "is_js_whitespace c \<longleftrightarrow>
     c = 0x09 \<or> c = 0x0A \<or> c = 0x0B \<or> c = 0x0C \<or> c = 0x0D \<or> c = 0x20 \<or> c = 0xA0 \<or>
     c = 0x1680 \<or> (0x2000 \<le> c \<and> c \<le> 0x200A) \<or> c = 0x2028 \<or> c = 0x2029 \<or>
     c = 0x202F \<or> c = 0x205F \<or> c = 0x3000 \<or> c = 0xFEFF"

definition trim :: "jsstring \<Rightarrow> jsstring" where
  "trim s = rev (dropWhile is_js_whitespace (rev (dropWhile is_js_whitespace s)))"

text \<open>\<open>s.startsWith(p)\<close>, \<open>s.endsWith(p)\<close>, \<open>s.includes(p)\<close>, \<open>s.slice(n)\<close> for \<open>0 \<le> n\<close>.\<close>

definition startsWith :: "jsstring \<Rightarrow> jsstring \<Rightarrow> bool" where
  "startsWith s p = prefix p s"

definition endsWith :: "jsstring \<Rightarrow> jsstring \<Rightarrow> bool" where
  "endsWith s p = suffix p s"

definition includes_str :: "jsstring \<Rightarrow> jsstring \<Rightarrow> bool" where
  "includes_str s p = sublist p s"

definition slice :: "jsstring \<Rightarrow> nat \<Rightarrow> jsstring" where
  "slice s n = drop n s"

text \<open>
  \<open>toLowerCase\<close> on the ASCII letters. The routes use it only to test a file name for
  the suffixes \<open>.pdf\<close>, \<open>.docx\<close> and \<open>.txt\<close>; no code unit outside \<open>A\<close>..\<open>Z\<close>
  lower-cases to one of the letters of these suffixes, so the test agrees with the full
  Unicode mapping.
\<close>

definition lower_unit :: "jschar \<Rightarrow> jschar" where
  "lower_unit c = (if 0x41 \<le> c \<and> c \<le> 0x5A then c + 0x20 else c)"

definition toLowerCase :: "jsstring \<Rightarrow> jsstring" where
  "toLowerCase s = map lower_unit s"

text \<open>\<open>x || d\<close> for a possibly undefined string \<open>x\<close>: the empty string is falsy.\<close>

definition or_else :: "jsstring option \<Rightarrow> jsstring \<Rightarrow> jsstring" where
  "or_else x d = (case x of None \<Rightarrow> d | Some s \<Rightarrow> if s = [] then d else s)"

section \<open>Text normalisation of the upload route\<close>

text \<open>
  \<open>s.replaceAll(pat, rep)\<close> with a string pattern: a left-to-right scan that replaces
  every non-overlapping occurrence. With the empty pattern JavaScript puts \<open>rep\<close>
  before every code unit and at the end.
\<close>

function replaceAll_scan :: "jsstring \<Rightarrow> jsstring \<Rightarrow> jsstring \<Rightarrow> jsstring" where
  "replaceAll_scan pat rep [] = []"
| "replaceAll_scan pat rep (c # cs) =
     (if pat \<noteq> [] \<and> prefix pat (c # cs)
      then rep @ replaceAll_scan pat rep (drop (length pat) (c # cs))
      else c # replaceAll_scan pat rep cs)"
  by pat_completeness auto
termination
  by (relation "measure (\<lambda>(pat, rep, s). length s)") auto

definition replaceAll :: "jsstring \<Rightarrow> jsstring \<Rightarrow> jsstring \<Rightarrow> jsstring" where
  "replaceAll s pat rep =
     (if pat = [] then rep @ concat (map (\<lambda>c. c # rep) s) else replaceAll_scan pat rep s)"

text \<open>
  \<open>s.replace(/[ \t]+\n/g, "\n")\<close>. At a position the pattern matches exactly when a
  non-empty maximal run of spaces and tabs starts there and is followed by a line feed
  (a shorter run is followed by a space or tab, so backtracking finds nothing else); the
  scan resumes after the match.
\<close>

definition is_blank :: "jschar \<Rightarrow> bool" where
  "is_blank c \<longleftrightarrow> c = SP \<or> c = TAB"

function replace_trailing_blanks :: "jsstring \<Rightarrow> jsstring" where
  "replace_trailing_blanks [] = []"
| "replace_trailing_blanks (c # cs) =
     (case dropWhile is_blank (c # cs) of
        d # ds \<Rightarrow>
          if is_blank c \<and> d = LF
          then LF # replace_trailing_blanks ds
          else c # replace_trailing_blanks cs
      | [] \<Rightarrow> c # replace_trailing_blanks cs)"
  by pat_completeness auto
termination
proof (relation "measure length")
  fix c cs d ds
  assume "dropWhile is_blank (c # cs) = d # ds"
  then have "length (d # ds) \<le> length (c # cs)"
    by (metis length_dropWhile_le)
  then show "(ds, c # cs) \<in> measure length" by simp
qed auto

text \<open>
  \<open>s.replace(/\n{3,}/g, "\n\n")\<close>: at a position with three line feeds the greedy
  quantifier takes the whole run, which becomes two line feeds.
\<close>

function collapse_newlines :: "jsstring \<Rightarrow> jsstring" where
  "collapse_newlines [] = []"
| "collapse_newlines (c # cs) =
     (if prefix [LF, LF, LF] (c # cs)
      then LF # LF # collapse_newlines (dropWhile (\<lambda>x. x = LF) (c # cs))
      else c # collapse_newlines cs)"
  by pat_completeness auto
termination
proof (relation "measure length")
  fix c cs
  assume "prefix [LF, LF, LF] (c # cs)"
  then have "c = LF" by simp
  then have "dropWhile (\<lambda>x. x = LF) (c # cs) = dropWhile (\<lambda>x. x = LF) cs" by simp
  moreover have "length (dropWhile (\<lambda>x. x = LF) cs) \<le> length cs"
    by (rule length_dropWhile_le)
  ultimately show "(dropWhile (\<lambda>x. x = LF) (c # cs), c # cs) \<in> measure length" by simp
qed auto

definition normalizeText :: "jsstring \<Rightarrow> jsstring" where
  "normalizeText raw =
     trim (collapse_newlines (replace_trailing_blanks
       (replaceAll (replaceAll raw [CR, LF] [LF]) [CR] [LF])))"

section \<open>JSON values and JavaScript numbers\<close>

text \<open>
  A call that may throw: \<open>Throws m\<close> carries the \<open>message\<close> of the thrown value
  (\<open>None\<close> when it has none).
\<close>

datatype 'a outcome = Throws "jsstring option" | Returns 'a

definition and_then :: "'a outcome \<Rightarrow> ('a \<Rightarrow> 'b outcome) \<Rightarrow> 'b outcome" where
  "and_then x f = (case x of Throws e \<Rightarrow> Throws e | Returns v \<Rightarrow> f v)"

text \<open>
  What \<open>req.json()\<close> can give: any JSON value. An object lists its members in the
  order of the text; where a name occurs twice the last member counts.
\<close>

datatype jsvalue =
    VNull
  | VBool bool
  | VNumber rat
  | VString jsstring
  | VArray "jsvalue list"
  | VObject "(jsstring \<times> jsvalue) list"

text \<open>
  \<open>b.name\<close> for a value \<open>b\<close> other than \<open>null\<close>, and \<open>b?.name\<close> for any value;
  \<open>None\<close> is \<open>undefined\<close>. None of the names the routes read is a property of a
  string, number, boolean or array.
\<close>

definition property :: "jsvalue \<Rightarrow> string \<Rightarrow> jsvalue option" where
  "property b name = (case b of VObject members \<Rightarrow> map_of (rev members) (js name) | _ \<Rightarrow> None)"

text \<open>Truthiness of a value or \<open>undefined\<close>, as \<open>!x\<close>, \<open>x || y\<close> and \<open>x && y\<close> test it.\<close>

fun truthy :: "jsvalue option \<Rightarrow> bool" where
  "truthy None = False"
| "truthy (Some VNull) = False"
| "truthy (Some (VBool t)) = t"
| "truthy (Some (VNumber n)) = (n \<noteq> 0)"
| "truthy (Some (VString s)) = (s \<noteq> [])"
| "truthy (Some (VArray xs)) = True"
| "truthy (Some (VObject members)) = True"

text \<open>
  \<open>x?.trim()\<close>, also \<open>(x ?? "").trim()\<close> up to the value for a nullish \<open>x\<close>:
  \<open>undefined\<close> for a nullish \<open>x\<close>, the trimmed string for a string, and a
  \<open>TypeError\<close> with the message \<open>msg\<close> for anything else, which has no \<open>trim\<close>.
\<close>

definition trim_of :: "jsstring \<Rightarrow> jsvalue option \<Rightarrow> jsstring option outcome" where
  "trim_of msg x =
     (case x of
        None \<Rightarrow> Returns None
      | Some VNull \<Rightarrow> Returns None
      | Some (VString s) \<Rightarrow> Returns (Some (trim s))
      | Some _ \<Rightarrow> Throws (Some msg))"

text \<open>
  A JavaScript number is a double. An integer of the store is read as the nearest
  double, ties going to the even significand: exactly when its magnitude is below
  \<open>2^53\<close>, and else rounded to 53 significant bits. (Magnitudes of \<open>2^1024\<close> and
  more, which are read as \<open>Infinity\<close>, are outside what the theorems below speak about.)
\<close>

function bit_length :: "int \<Rightarrow> nat" where
  "bit_length n = (if n \<le> 0 then 0 else Suc (bit_length (n div 2)))"
  by pat_completeness auto
termination
  by (relation "measure nat") auto

declare bit_length.simps [simp del]

definition to_number :: "int \<Rightarrow> int" where
  "to_number x =
     (if \<bar>x\<bar> < 2 ^ 53 then x
      else let u = 2 ^ (bit_length \<bar>x\<bar> - 53);
               q = \<bar>x\<bar> div u;
               r = \<bar>x\<bar> mod u;
               m = (if 2 * r < u \<or> (2 * r = u \<and> even q) then q else q + 1)
           in sgn x * (m * u))"

section \<open>Data model\<close>

text \<open>
  Rows of the managed store, as the routes read and write them. A nullable column is an
  option. The inserted row carries the columns the routes compute from their input;
  \<open>title\<close> and \<open>content_json\<close> are left out.
\<close>

record user =
  user_id :: jsstring
  email :: "jsstring option"
  full_name :: "jsstring option"

record job =
  job_id :: jsstring
  company :: "jsstring option"
  role :: "jsstring option"
  job_description :: "jsstring option"

datatype doc_type = Resume | TailoredResume | CoverLetter | Other

record doc_insert =
  ins_user_id :: jsstring
  ins_job_id :: "jsvalue option"
  ins_type :: doc_type
  ins_content_text :: jsstring

text \<open>The row the store returns after an insert (\<open>.select(...).single()\<close>).\<close>

record document =
  doc_id :: jsstring
  doc_title :: jsstring
  doc_created_at :: jsstring

text \<open>The \<open>profiles\<close> table: \<open>credits_remaining\<close> of the row of each user.\<close>

type_synonym profiles = "jsstring \<rightharpoonup> int"

section \<open>Requests, responses and the outside world\<close>

text \<open>
  The \<open>{data, error}\<close> pair every call of the managed client resolves to; \<open>error\<close>
  holds the error's message.
\<close>

record 'a sb_result =
  data :: "'a option"
  error :: "jsstring option"

record upload_file =
  file_name :: jsstring
  file_type :: jsstring
  file_bytes :: "8 word list"

datatype form_entry = FormString jsstring | FormFile upload_file

text \<open>
  A request: the \<open>authorization\<close> header, what \<open>req.json()\<close> gives (a JSON value,
  or a throw on malformed JSON) and what \<open>(await req.formData()).get("file")\<close> gives.
\<close>

record request =
  authorization :: "jsstring option"
  json_body :: "jsvalue outcome"
  form_file :: "form_entry option outcome"

datatype json = JNull | JBool bool | JNum int | JStr jsstring | JRow document

text \<open>A response: the status and the members of the JSON body (none when there is no body).\<close>

record response =
  status :: nat
  body :: "(string \<times> json) list"

type_synonym env = "string \<rightharpoonup> jsstring"

text \<open>The answer of \<open>fetch\<close> to the completion API, as \<open>callOpenAI\<close> reads it.\<close>

datatype fetch_result =
    FetchThrows "jsstring option"
  | NotOk jsstring jsstring
  | JsonThrows "jsstring option"
  | Choice "jsstring option"

text \<open>
  Everything outside the handlers, for the duration of one request: the identity
  provider, the store, the completion API, the parsing libraries, the client
  constructors, the clock and the wording of the engine's \<open>TypeError\<close> for a property of
  a given name. The prompt sent to the completion API is a template over the request's
  fields; its answer is whatever the world gives. \<open>openai_accepts_key\<close> says whether
  the completion client can be constructed with a given key. \<open>concurrent\<close> is the
  effect of other requests on the \<open>profiles\<close> table while the tailoring route awaits
  the completion API.
\<close>

record world =
  createClient :: "jsstring option \<Rightarrow> jsstring option \<Rightarrow> unit outcome"
  cookies :: "unit outcome"
  createServerClient :: "jsstring option \<Rightarrow> jsstring option \<Rightarrow> unit outcome"
  openai_accepts_key :: "jsstring \<Rightarrow> bool"
  type_error :: "string \<Rightarrow> jsstring"
  getUser :: "jsstring \<Rightarrow> user sb_result"
  select_job :: "jsvalue \<Rightarrow> job sb_result"
  select_own_job :: "jsvalue \<Rightarrow> jsstring \<Rightarrow> job sb_result"
  rpc_consume_credits :: "jsstring \<Rightarrow> int \<Rightarrow> int sb_result"
  openai_fetch :: fetch_result
  openai_sdk :: "jsstring option outcome"
  insert_document :: "doc_insert \<Rightarrow> document sb_result"
  select_profile_error :: "jsstring option"
  update_profile_error :: "jsstring option"
  concurrent :: "profiles \<Rightarrow> profiles"
  require_pdfParse :: "bool outcome"
  pdfParse :: "8 word list \<Rightarrow> jsstring option outcome"
  mammoth_extractRawText :: "8 word list \<Rightarrow> jsstring option outcome"
  utf8_toString :: "8 word list \<Rightarrow> jsstring"
  today :: jsstring

text \<open>What a handler does to the outside, in order.\<close>

datatype event =
    CheckToken
  | GetUser jsstring
  | SelectJob jsvalue
  | SelectProfile jsstring
  | ConsumeCredits jsstring int
  | Completion
  | InsertDocument doc_insert
  | UpdateCredits jsstring int
  | InsertLedger jsstring int
  | ReadFile
  | ParsePdf
  | ParseDocx

type_synonym run = "event list \<times> response"

definition reply :: "nat \<Rightarrow> (string \<times> json) list \<Rightarrow> run" where
  "reply st b = ([], \<lparr>status = st, body = b\<rparr>)"

definition error_reply :: "nat \<Rightarrow> jsstring \<Rightarrow> run" where
  "error_reply st msg = reply st [(''error'', JStr msg)]"

definition emit :: "event \<Rightarrow> run \<Rightarrow> run" where
  "emit ev r = (ev # fst r, snd r)"

definition emits :: "event list \<Rightarrow> run \<Rightarrow> run" where
  "emits evs r = (evs @ fst r, snd r)"

text \<open>\<open>x ?? d\<close>.\<close>

definition nullish :: "jsstring option \<Rightarrow> jsstring \<Rightarrow> jsstring" where
  "nullish x d = (case x of None \<Rightarrow> d | Some s \<Rightarrow> s)"

definition json_of_row :: "document option \<Rightarrow> json" where
  "json_of_row d = (case d of None \<Rightarrow> JNull | Some r \<Rightarrow> JRow r)"

definition json_of_num :: "int option \<Rightarrow> json" where
  "json_of_num n = (case n of None \<Rightarrow> JNull | Some i \<Rightarrow> JNum i)"

section \<open>Helpers shared by the routes\<close>

definition requireEnv :: "env \<Rightarrow> string \<Rightarrow> jsstring outcome" where
  "requireEnv env name =
     (case env name of
        None \<Rightarrow> Throws (Some (js ''Missing env: '' @ js name))
      | Some v \<Rightarrow> if v = [] then Throws (Some (js ''Missing env: '' @ js name)) else Returns v)"

text \<open>
  \<open>authHeader.startsWith("Bearer ") ? authHeader.slice(7) : null\<close>, on the header or
  the empty string when the header is absent.
\<close>

definition bearer_token :: "jsstring option \<Rightarrow> jsstring option" where
  "bearer_token h =
     (let authHeader = or_else h [] in
      if startsWith authHeader (js ''Bearer '') then Some (slice authHeader 7) else None)"

text \<open>\<open>b.name?.trim()\<close> on the body \<open>b\<close>.\<close>

definition trimmed :: "world \<Rightarrow> jsvalue \<Rightarrow> string \<Rightarrow> jsstring option outcome" where
  "trimmed w b name = trim_of (type_error w name) (property b name)"

text \<open>
  \<open>callOpenAI\<close> of the cover-letter and resume-generation routes: the events it causes
  and what it returns or throws.
\<close>

definition callOpenAI :: "env \<Rightarrow> world \<Rightarrow> event list \<times> jsstring outcome" where
  "callOpenAI env w =
     (case requireEnv env ''OPENAI_API_KEY'' of
        Throws e \<Rightarrow> ([], Throws e)
      | Returns apiKey \<Rightarrow>
          ([Completion],
           case openai_fetch w of
             FetchThrows e \<Rightarrow> Throws e
           | NotOk st text \<Rightarrow> Throws (Some (js ''OpenAI error: '' @ st @ js '' '' @ text))
           | JsonThrows e \<Rightarrow> Throws e
           | Choice c \<Rightarrow>
               (let content = or_else (map_option trim c) [] in
                if content = [] then Throws (Some (js ''OpenAI returned empty content''))
                else Returns content)))"

section \<open>The cover-letter route\<close>

text \<open>
  \<open>formatDate\<close>: the trimmed date of the request when it has one, else today's date.
  A truthy value that is not a string has no \<open>trim\<close>.
\<close>

definition formatDate :: "world \<Rightarrow> jsvalue option \<Rightarrow> jsstring outcome" where
  "formatDate w dateText =
     (if \<not> truthy dateText then Returns (today w)
      else case dateText of
             Some (VString s) \<Rightarrow> Returns (if trim s = [] then today w else trim s)
           | _ \<Rightarrow> Throws (Some (type_error w ''dateText'')))"

text \<open>
  The header fields of the letter, taken from the request or filled with the route's
  defaults, in the order the route computes them.
\<close>

record letter_header =
  headerName :: jsstring
  headerEmail :: jsstring
  address1 :: jsstring
  cityStateZip :: jsstring
  phone :: jsstring
  companyName :: jsstring
  hiringManager :: jsstring
  dateText :: jsstring

definition cover_letter_header :: "world \<Rightarrow> jsvalue \<Rightarrow> user \<Rightarrow> job \<Rightarrow> letter_header outcome" where
  "cover_letter_header w b u j =
     and_then (trimmed w b ''userFullName'') (\<lambda>userFullName.
     and_then (trimmed w b ''userEmail'') (\<lambda>userEmail.
     and_then (trimmed w b ''userAddressLine1'') (\<lambda>userAddressLine1.
     and_then (trimmed w b ''userCityStateZip'') (\<lambda>userCityStateZip.
     and_then (trimmed w b ''userPhone'') (\<lambda>userPhone.
     and_then (trimmed w b ''companyName'') (\<lambda>company_name.
     and_then (trimmed w b ''hiringManagerName'') (\<lambda>hiringManagerName.
     and_then (formatDate w (property b ''dateText'')) (\<lambda>date.
     Returns
       \<lparr>headerName = or_else userFullName (or_else (full_name u) (js ''John Doe'')),
        headerEmail = or_else userEmail (or_else (email u) (js ''john.doe@email.com'')),
        address1 = or_else userAddressLine1 (js ''123 Main St''),
        cityStateZip = or_else userCityStateZip (js ''City, ST 00000''),
        phone = or_else userPhone (js ''555 555-5555''),
        companyName = or_else company_name (or_else (company j) (js ''Company Name'')),
        hiringManager = or_else hiringManagerName (js ''Hiring Manager''),
        dateText = date\<rparr>))))))))"

text \<open>
  The text stored for a cover letter: header lines, date, company, salutation, the
  generated body and the closing.
\<close>

definition cover_letter_text :: "letter_header \<Rightarrow> jsstring \<Rightarrow> jsstring" where
  "cover_letter_text h letterBody =
     headerName h @ [LF] @ address1 h @ [LF] @ cityStateZip h @ [LF] @ phone h @ [LF] @
     headerEmail h @ [LF, LF] @ dateText h @ [LF] @ companyName h @ [LF, LF] @
     js ''Dear '' @ hiringManager h @ js '','' @ [LF, LF] @ letterBody @ [LF, LF] @
     js ''Sincerely,'' @ [LF] @ headerName h @ [LF]"

text \<open>The \<open>catch\<close> of the cover-letter and resume-generation routes.\<close>

definition caught :: "jsstring option \<Rightarrow> run" where
  "caught e = error_reply 500 (nullish e (js ''Unknown error''))"

definition cover_letter_POST :: "env \<Rightarrow> world \<Rightarrow> request \<Rightarrow> run" where
  "cover_letter_POST env w req =
     (case requireEnv env ''NEXT_PUBLIC_SUPABASE_URL'' of
        Throws e \<Rightarrow> caught e
      | Returns supabaseUrl \<Rightarrow>
     (case requireEnv env ''NEXT_PUBLIC_SUPABASE_ANON_KEY'' of
        Throws e \<Rightarrow> caught e
      | Returns supabaseAnon \<Rightarrow>
     emit CheckToken
     (case bearer_token (authorization req) of
        None \<Rightarrow> error_reply 401 (js ''Missing Authorization Bearer token'')
      | Some token \<Rightarrow>
     if token = [] then error_reply 401 (js ''Missing Authorization Bearer token'')
     else
     (case createClient w (Some supabaseUrl) (Some supabaseAnon) of
        Throws e \<Rightarrow> caught e
      | Returns _ \<Rightarrow>
     (case json_body req of
        Throws e \<Rightarrow> caught e
      | Returns b \<Rightarrow>
     (case property b ''jobId'' of
        None \<Rightarrow> error_reply 400 (js ''jobId is required'')
      | Some jobId \<Rightarrow>
     if \<not> truthy (Some jobId) then error_reply 400 (js ''jobId is required'')
     else
     emit (GetUser token)
     (let userRes = getUser w token in
      case (error userRes, data userRes) of
        (Some _, _) \<Rightarrow> error_reply 401 (js ''Invalid session'')
      | (None, None) \<Rightarrow> error_reply 401 (js ''Invalid session'')
      | (None, Some u) \<Rightarrow>
     emit (SelectJob jobId)
     (let jobRes = select_job w jobId in
      case (error jobRes, data jobRes) of
        (Some _, _) \<Rightarrow> error_reply 404 (js ''Job not found'')
      | (None, None) \<Rightarrow> error_reply 404 (js ''Job not found'')
      | (None, Some j) \<Rightarrow>
     emit (ConsumeCredits (user_id u) 1)
     (let credit = rpc_consume_credits w (user_id u) 1 in
      case error credit of
        Some msg \<Rightarrow>
          if includes_str msg (js ''INSUFFICIENT_CREDITS'')
          then error_reply 402 (js ''Insufficient credits'')
          else error_reply 500 (js ''Credit error: '' @ msg)
      | None \<Rightarrow>
     (case cover_letter_header w b u j of
        Throws e \<Rightarrow> caught e
      | Returns h \<Rightarrow>
     emits (fst (callOpenAI env w))
     (case snd (callOpenAI env w) of
        Throws e \<Rightarrow> caught e
      | Returns letterBody \<Rightarrow>
     emit (InsertDocument \<lparr>ins_user_id = user_id u, ins_job_id = Some (VString (job_id j)),
             ins_type = CoverLetter, ins_content_text = cover_letter_text h letterBody\<rparr>)
     (let docRes = insert_document w \<lparr>ins_user_id = user_id u,
             ins_job_id = Some (VString (job_id j)), ins_type = CoverLetter,
             ins_content_text = cover_letter_text h letterBody\<rparr> in
      case (error docRes, data docRes) of
        (Some _, _) \<Rightarrow> error_reply 500 (js ''Failed to save document'')
      | (None, None) \<Rightarrow> error_reply 500 (js ''Failed to save document'')
      | (None, Some doc) \<Rightarrow>
          reply 200 [(''document'', JRow doc),
                     (''creditsRemaining'', json_of_num (data credit))]))))))))))))"

section \<open>The resume-generation route\<close>

text \<open>
  \<open>(education?.trim() || experience?.trim() || projects?.trim() || skills?.trim()) ?? ""\<close>
  on the fields of the body: the first of the four that is non-empty after trimming, or
  a falsy value; a later field is looked at only when the earlier ones are falsy. Reading
  a field of \<open>null\<close> throws.
\<close>

definition hasContent :: "world \<Rightarrow> jsvalue \<Rightarrow> jsstring outcome" where
  "hasContent w b =
     (if b = VNull then Throws (Some (type_error w ''education''))
      else
      and_then (trimmed w b ''education'') (\<lambda>education.
      if or_else education [] \<noteq> [] then Returns (or_else education [])
      else
      and_then (trimmed w b ''experience'') (\<lambda>experience.
      if or_else experience [] \<noteq> [] then Returns (or_else experience [])
      else
      and_then (trimmed w b ''projects'') (\<lambda>projects.
      if or_else projects [] \<noteq> [] then Returns (or_else projects [])
      else
      and_then (trimmed w b ''skills'') (\<lambda>skills.
      Returns (or_else skills []))))))"

text \<open>
  The other fields the route trims before it builds the prompt (\<open>fullName\<close> to
  \<open>targetRole\<close> directly, the rest in \<open>clamp\<close>): the first that has no \<open>trim\<close>
  throws.
\<close>

fun trim_fields :: "world \<Rightarrow> jsvalue \<Rightarrow> string list \<Rightarrow> unit outcome" where
  "trim_fields w b [] = Returns ()"
| "trim_fields w b (name # names) =
     (case trimmed w b name of
        Throws e \<Rightarrow> Throws e
      | Returns _ \<Rightarrow> trim_fields w b names)"

declare trim_fields.simps [simp del]

definition generate_resume_POST :: "env \<Rightarrow> world \<Rightarrow> request \<Rightarrow> run" where
  "generate_resume_POST env w req =
     (case requireEnv env ''NEXT_PUBLIC_SUPABASE_URL'' of
        Throws e \<Rightarrow> caught e
      | Returns supabaseUrl \<Rightarrow>
     (case requireEnv env ''NEXT_PUBLIC_SUPABASE_ANON_KEY'' of
        Throws e \<Rightarrow> caught e
      | Returns supabaseAnon \<Rightarrow>
     emit CheckToken
     (case bearer_token (authorization req) of
        None \<Rightarrow> error_reply 401 (js ''Missing Authorization Bearer token'')
      | Some token \<Rightarrow>
     if token = [] then error_reply 401 (js ''Missing Authorization Bearer token'')
     else
     (case createClient w (Some supabaseUrl) (Some supabaseAnon) of
        Throws e \<Rightarrow> caught e
      | Returns _ \<Rightarrow>
     (case json_body req of
        Throws e \<Rightarrow> caught e
      | Returns b \<Rightarrow>
     emit (GetUser token)
     (let userRes = getUser w token in
      case (error userRes, data userRes) of
        (Some _, _) \<Rightarrow> error_reply 401 (js ''Invalid session'')
      | (None, None) \<Rightarrow> error_reply 401 (js ''Invalid session'')
      | (None, Some u) \<Rightarrow>
     (case hasContent w b of
        Throws e \<Rightarrow> caught e
      | Returns content \<Rightarrow>
     if content = []
     then error_reply 400
            (js ''Please provide at least one of: education, experience, projects, or skills.'')
     else
     emit (ConsumeCredits (user_id u) 1)
     (let credit = rpc_consume_credits w (user_id u) 1 in
      case error credit of
        Some msg \<Rightarrow>
          if includes_str msg (js ''INSUFFICIENT_CREDITS'')
          then error_reply 402 (js ''Insufficient credits'')
          else error_reply 500 (js ''Credit error: '' @ msg)
      | None \<Rightarrow>
     (case trim_fields w b [''fullName'', ''email'', ''phone'', ''location'', ''targetRole'',
             ''education'', ''experience'', ''projects'', ''skills'', ''additionalInfo''] of
        Throws e \<Rightarrow> caught e
      | Returns _ \<Rightarrow>
     emits (fst (callOpenAI env w))
     (case snd (callOpenAI env w) of
        Throws e \<Rightarrow> caught e
      | Returns resumeText \<Rightarrow>
     (case trimmed w b ''title'' of
        Throws e \<Rightarrow> caught e
      | Returns _ \<Rightarrow>
     emit (InsertDocument \<lparr>ins_user_id = user_id u, ins_job_id = None, ins_type = Resume,
             ins_content_text = resumeText\<rparr>)
     (let docRes = insert_document w \<lparr>ins_user_id = user_id u, ins_job_id = None,
             ins_type = Resume, ins_content_text = resumeText\<rparr> in
      case (error docRes, data docRes) of
        (Some _, _) \<Rightarrow> error_reply 500 (js ''Failed to save document'')
      | (None, None) \<Rightarrow> error_reply 500 (js ''Failed to save document'')
      | (None, Some doc) \<Rightarrow>
          reply 200 [(''document'', JRow doc),
                     (''creditsRemaining'', json_of_num (data credit))]))))))))))))"

section \<open>The route that reports which environment keys are set\<close>

definition truthy_env :: "env \<Rightarrow> string \<Rightarrow> bool" where
  "truthy_env env name = (case env name of None \<Rightarrow> False | Some v \<Rightarrow> v \<noteq> [])"

definition env_GET :: "env \<Rightarrow> run" where
  "env_GET env =
     reply 200 [(''hasOpenAIKey'', JBool (truthy_env env ''OPENAI_API_KEY'')),
                (''hasSupabaseUrl'', JBool (truthy_env env ''NEXT_PUBLIC_SUPABASE_URL''))]"

section \<open>The resume-tailoring route\<close>

text \<open>
  The module of the route constructs the completion client at load time, outside the
  handler's \<open>try\<close>: \<open>new OpenAI({ apiKey: process.env.OPENAI_API_KEY })\<close>. The
  constructor throws when the key is unset; with a key it is the library that decides.
  When the module cannot be loaded the handler never runs.
\<close>

definition tailor_module_loads :: "env \<Rightarrow> world \<Rightarrow> bool" where
  "tailor_module_loads env w =
     (case env ''OPENAI_API_KEY'' of None \<Rightarrow> False | Some apiKey \<Rightarrow> openai_accepts_key w apiKey)"

definition caught_tailor :: "jsstring option \<Rightarrow> run" where
  "caught_tailor e = error_reply 500 (nullish e (js ''Server error''))"

text \<open>
  \<open>!resumeText || resumeText.trim().length < 200\<close>: whether the route rejects the
  resume text; a truthy value that is not a string throws.
\<close>

definition resumeText_rejected :: "world \<Rightarrow> jsvalue option \<Rightarrow> bool outcome" where
  "resumeText_rejected w resumeText =
     (if \<not> truthy resumeText then Returns True
      else case resumeText of
             Some (VString s) \<Rightarrow> Returns (length (trim s) < 200)
           | _ \<Rightarrow> Throws (Some (type_error w ''resumeText'')))"

text \<open>
  \<open>update profiles set credits_remaining = v where user_id = uid\<close>: the row of the
  user, when there is one, gets the value \<open>v\<close>.
\<close>

definition update_credits :: "profiles \<Rightarrow> jsstring \<Rightarrow> int \<Rightarrow> profiles" where
  "update_credits db uid v = (if uid \<in> dom db then db(uid \<mapsto> v) else db)"

text \<open>
  What a request to the route gets: a 500 without a JSON body when the module cannot be
  loaded, else the run of \<open>POST\<close>. The route takes the \<open>profiles\<close> table as it is
  when the balance is read and returns it as it is when the response is sent. The read
  gives the stored balance as a JavaScript number unless the store reports an error;
  other requests change the table while the completion API is awaited (\<open>concurrent\<close>);
  the update writes \<open>credits_remaining - 1\<close>, computed on numbers from the earlier read.
  Destructuring a \<open>null\<close> body throws.
\<close>

definition tailor_resume_POST :: "env \<Rightarrow> world \<Rightarrow> request \<Rightarrow> profiles \<Rightarrow> run \<times> profiles" where
  "tailor_resume_POST env w req db =
     (if \<not> tailor_module_loads env w then (reply 500 [], db)
      else
     apfst (emit CheckToken)
     (case bearer_token (authorization req) of
        None \<Rightarrow> (error_reply 401 (js ''Missing auth token''), db)
      | Some token \<Rightarrow>
     if token = [] then (error_reply 401 (js ''Missing auth token''), db)
     else
     (case json_body req of
        Throws e \<Rightarrow> (caught_tailor e, db)
      | Returns b \<Rightarrow>
     if b = VNull then (caught_tailor (Some (type_error w ''jobId'')), db)
     else
     (case property b ''jobId'' of
        None \<Rightarrow> (error_reply 400 (js ''jobId is required''), db)
      | Some jobId \<Rightarrow>
     if \<not> truthy (Some jobId) then (error_reply 400 (js ''jobId is required''), db)
     else
     (case resumeText_rejected w (property b ''resumeText'') of
        Throws e \<Rightarrow> (caught_tailor e, db)
      | Returns rejected \<Rightarrow>
     if rejected
     then (error_reply 400 (js ''resumeText is required (min ~200 chars)''), db)
     else
     (case createClient w (env ''NEXT_PUBLIC_SUPABASE_URL'') (env ''NEXT_PUBLIC_SUPABASE_ANON_KEY'') of
        Throws e \<Rightarrow> (caught_tailor e, db)
      | Returns _ \<Rightarrow>
     apfst (emit (GetUser token))
     (let userRes = getUser w token in
      case (error userRes, data userRes) of
        (Some m, _) \<Rightarrow> (error_reply 401 m, db)
      | (None, None) \<Rightarrow> (error_reply 401 (js ''Unauthorized''), db)
      | (None, Some u) \<Rightarrow>
     apfst (emit (SelectProfile (user_id u)))
     (case select_profile_error w of
        Some m \<Rightarrow> (error_reply 400 m, db)
      | None \<Rightarrow>
     (case db (user_id u) of
        None \<Rightarrow> (error_reply 402 (js ''No credits remaining''), db)
      | Some stored \<Rightarrow>
     if to_number stored \<le> 0 then (error_reply 402 (js ''No credits remaining''), db)
     else
     apfst (emit (SelectJob jobId))
     (let jobRes = select_own_job w jobId (user_id u) in
      case (error jobRes, data jobRes) of
        (Some m, _) \<Rightarrow> (error_reply 404 m, db)
      | (None, None) \<Rightarrow> (error_reply 404 (js ''Job not found''), db)
      | (None, Some j) \<Rightarrow>
     apfst (emit Completion)
     (case openai_sdk w of
        Throws e \<Rightarrow> (caught_tailor e, concurrent w db)
      | Returns c \<Rightarrow>
     if or_else (map_option trim c) [] = []
     then (error_reply 500 (js ''Empty AI response''), concurrent w db)
     else
     apfst (emit (InsertDocument \<lparr>ins_user_id = user_id u, ins_job_id = Some jobId,
             ins_type = TailoredResume, ins_content_text = or_else (map_option trim c) []\<rparr>))
     (let docRes = insert_document w \<lparr>ins_user_id = user_id u, ins_job_id = Some jobId,
             ins_type = TailoredResume, ins_content_text = or_else (map_option trim c) []\<rparr> in
      case error docRes of
        Some m \<Rightarrow> (error_reply 400 m, concurrent w db)
      | None \<Rightarrow>
     apfst (emit (UpdateCredits (user_id u) (to_number (to_number stored - 1))))
     (case update_profile_error w of
        Some _ \<Rightarrow> (reply 200 [(''document'', json_of_row (data docRes))], concurrent w db)
      | None \<Rightarrow>
          apfst (emit (InsertLedger (user_id u) (- 1)))
            (reply 200 [(''document'', json_of_row (data docRes))],
             update_credits (concurrent w db) (user_id u)
               (to_number (to_number stored - 1))))))))))))))))"

section \<open>The resume-upload route\<close>

definition caught_upload :: "jsstring option \<Rightarrow> run" where
  "caught_upload e = error_reply 500 (or_else e (js ''Upload failed''))"

datatype extraction = Extracted jsstring | ExtractThrows "jsstring option" | Unsupported

text \<open>
  The branch on the file's kind: the events it causes and the extracted text, a throw of
  a parsing library, or the unsupported-type exit.
\<close>

definition extract_text ::
  "world \<Rightarrow> jsstring \<Rightarrow> jsstring \<Rightarrow> 8 word list \<Rightarrow> event list \<times> extraction" where
  "extract_text w filename mime buf =
     (if mime = js ''application/pdf'' \<or> endsWith (toLowerCase filename) (js ''.pdf'')
      then (case require_pdfParse w of
              Throws e \<Rightarrow> ([], ExtractThrows e)
            | Returns is_function \<Rightarrow>
                if \<not> is_function
                then ([], ExtractThrows (Some (js ''pdf-parse did not resolve to a function.'')))
                else ([ParsePdf],
                      case pdfParse w buf of
                        Throws e \<Rightarrow> ExtractThrows e
                      | Returns text \<Rightarrow> Extracted (or_else text [])))
      else if mime = js ''application/vnd.openxmlformats-officedocument.wordprocessingml.document''
              \<or> endsWith (toLowerCase filename) (js ''.docx'')
      then ([ParseDocx],
            case mammoth_extractRawText w buf of
              Throws e \<Rightarrow> ExtractThrows e
            | Returns v \<Rightarrow> Extracted (or_else v []))
      else if startsWith mime (js ''text/'') \<or> endsWith (toLowerCase filename) (js ''.txt'')
      then ([], Extracted (utf8_toString w buf))
      else ([], Unsupported))"

definition resume_upload_POST :: "env \<Rightarrow> world \<Rightarrow> request \<Rightarrow> run" where
  "resume_upload_POST env w req =
     (case cookies w of
        Throws e \<Rightarrow> caught_upload e
      | Returns _ \<Rightarrow>
     (case createServerClient w (env ''NEXT_PUBLIC_SUPABASE_URL'')
             (env ''NEXT_PUBLIC_SUPABASE_ANON_KEY'') of
        Throws e \<Rightarrow> caught_upload e
      | Returns _ \<Rightarrow>
     emit CheckToken
     (case bearer_token (authorization req) of
        None \<Rightarrow> error_reply 401 (js ''Missing auth token'')
      | Some token \<Rightarrow>
     if token = [] then error_reply 401 (js ''Missing auth token'')
     else
     emit (GetUser token)
     (let userRes = getUser w token in
      case (error userRes, data userRes) of
        (Some _, _) \<Rightarrow> error_reply 401 (js ''Not authenticated'')
      | (None, None) \<Rightarrow> error_reply 401 (js ''Not authenticated'')
      | (None, Some u) \<Rightarrow>
     (case form_file req of
        Throws e \<Rightarrow> caught_upload e
      | Returns None \<Rightarrow> error_reply 400 (js ''No file uploaded'')
      | Returns (Some (FormString _)) \<Rightarrow> error_reply 400 (js ''No file uploaded'')
      | Returns (Some (FormFile f)) \<Rightarrow>
     emit ReadFile
     (if file_bytes f = []
      then error_reply 400 (js (''Uploaded file was empty after reading. Try re-uploading, '' @
             ''or export the PDF again (DOCX works best).''))
      else
     emits (fst (extract_text w (or_else (Some (file_name f)) (js ''resume'')) (file_type f)
                   (file_bytes f)))
     (case snd (extract_text w (or_else (Some (file_name f)) (js ''resume'')) (file_type f)
                  (file_bytes f)) of
        ExtractThrows e \<Rightarrow> caught_upload e
      | Unsupported \<Rightarrow> error_reply 400 (js ''Unsupported file type. Use PDF, DOCX, or TXT.'')
      | Extracted extracted \<Rightarrow>
     if length (normalizeText extracted) < 200
     then error_reply 400 (js (''Could not extract enough text from the file. Try a different '' @
            ''format (DOCX often works best), or upload a TXT export.''))
     else
     (case createServerClient w (env ''NEXT_PUBLIC_SUPABASE_URL'')
             (env ''NEXT_PUBLIC_SUPABASE_ANON_KEY'') of
        Throws e \<Rightarrow> caught_upload e
      | Returns _ \<Rightarrow>
     emit (InsertDocument \<lparr>ins_user_id = user_id u, ins_job_id = None, ins_type = Resume,
             ins_content_text = normalizeText extracted\<rparr>)
     (let insRes = insert_document w \<lparr>ins_user_id = user_id u, ins_job_id = None,
             ins_type = Resume, ins_content_text = normalizeText extracted\<rparr> in
      case error insRes of
        Some m \<Rightarrow> error_reply 500 m
      | None \<Rightarrow> reply 200 [(''document'', json_of_row (data insRes))])))))))))"

section \<open>All routes\<close>

datatype route = PostCoverLetter | PostGenerateResume | PostTailorResume | PostResumeUpload | GetEnv

text \<open>What a request to each route gets.\<close>

definition serve :: "env \<Rightarrow> world \<Rightarrow> profiles \<Rightarrow> route \<Rightarrow> request \<Rightarrow> run" where
  "serve env w db r req =
     (case r of
        PostCoverLetter \<Rightarrow> cover_letter_POST env w req
      | PostGenerateResume \<Rightarrow> generate_resume_POST env w req
      | PostTailorResume \<Rightarrow> fst (tailor_resume_POST env w req db)
      | PostResumeUpload \<Rightarrow> resume_upload_POST env w req
      | GetEnv \<Rightarrow> env_GET env)"

section \<open>The steps of the control flow\<close>

text \<open>
  The steps the specification names, and the step each event belongs to: inspecting the
  header and asking the identity provider are token validation; the remote procedure and
  the direct update of the balance are the credit decrement. Reading the balance, loading
  the job, the ledger row and the file events are none of the named steps.
\<close>

datatype step = TokenValidation | CreditDecrement | CompletionCall | DocumentInsert | JsonResponse

fun step_of :: "event \<Rightarrow> step option" where
  "step_of CheckToken = Some TokenValidation"
| "step_of (GetUser _) = Some TokenValidation"
| "step_of (ConsumeCredits _ _) = Some CreditDecrement"
| "step_of (UpdateCredits _ _) = Some CreditDecrement"
| "step_of Completion = Some CompletionCall"
| "step_of (InsertDocument _) = Some DocumentInsert"
| "step_of _ = None"

text \<open>The steps of a run in order; the response is returned after every event.\<close>

definition steps :: "run \<Rightarrow> step list" where
  "steps r = List.map_filter step_of (fst r) @ [JsonResponse]"

text \<open>
  The condition of the specification on a request: its resume text (the \<open>resumeText\<close>
  field of the JSON body) is absent or is a string that, after trimming, is shorter than
  200 code units.
\<close>

definition short_resume_text :: "request \<Rightarrow> bool" where
  "short_resume_text req =
     (case json_body req of
        Throws _ \<Rightarrow> False
      | Returns b \<Rightarrow>
          (case property b ''resumeText'' of
             None \<Rightarrow> True
           | Some (VString t) \<Rightarrow> length (trim t) < 200
           | Some _ \<Rightarrow> False))"

text \<open>The body \<open>b\<close> with the member \<open>resumeText: v\<close> added at the end, when it is an object.\<close>

definition with_resumeText :: "jsvalue \<Rightarrow> jsvalue \<Rightarrow> jsvalue" where
  "with_resumeText b v =
     (case b of VObject members \<Rightarrow> VObject (members @ [(js ''resumeText'', v)]) | _ \<Rightarrow> b)"

section \<open>Concrete inputs\<close>

definition ex_env :: env where
  "ex_env = [''NEXT_PUBLIC_SUPABASE_URL'' \<mapsto> js ''https://db.example'',
             ''NEXT_PUBLIC_SUPABASE_ANON_KEY'' \<mapsto> js ''anon'',
             ''OPENAI_API_KEY'' \<mapsto> js ''sk'']"

text \<open>The environment without the key of the completion API.\<close>

definition ex_env_nokey :: env where
  "ex_env_nokey = [''NEXT_PUBLIC_SUPABASE_URL'' \<mapsto> js ''https://db.example'',
                   ''NEXT_PUBLIC_SUPABASE_ANON_KEY'' \<mapsto> js ''anon'']"

definition ex_user :: user where
  "ex_user = \<lparr>user_id = js ''u1'', email = Some (js ''a@b.c''), full_name = None\<rparr>"

definition ex_job :: job where
  "ex_job = \<lparr>job_id = js ''j1'', company = Some (js ''Acme''), role = None,
             job_description = None\<rparr>"

definition ex_document :: document where
  "ex_document = \<lparr>doc_id = js ''d1'', doc_title = js ''Resume'', doc_created_at = js ''now''\<rparr>"

text \<open>A world in which every outside call succeeds and nobody else touches the table.\<close>

definition ex_world :: world where
  "ex_world =
     \<lparr>createClient = (\<lambda>url key. Returns ()),
      cookies = Returns (),
      createServerClient = (\<lambda>url key. Returns ()),
      openai_accepts_key = (\<lambda>key. True),
      type_error = (\<lambda>name. js name @ js '' has no trim''),
      getUser = (\<lambda>token. \<lparr>data = Some ex_user, error = None\<rparr>),
      select_job = (\<lambda>jid. \<lparr>data = Some ex_job, error = None\<rparr>),
      select_own_job = (\<lambda>jid uid. \<lparr>data = Some ex_job, error = None\<rparr>),
      rpc_consume_credits = (\<lambda>uid n. \<lparr>data = Some 4, error = None\<rparr>),
      openai_fetch = Choice (Some (js ''I am glad to apply.'')),
      openai_sdk = Returns (Some (js ''SUMMARY'')),
      insert_document = (\<lambda>row. \<lparr>data = Some ex_document, error = None\<rparr>),
      select_profile_error = None,
      update_profile_error = None,
      concurrent = (\<lambda>db. db),
      require_pdfParse = Returns True,
      pdfParse = (\<lambda>buf. Returns (Some (map ucast buf))),
      mammoth_extractRawText = (\<lambda>buf. Returns (Some (map ucast buf))),
      utf8_toString = (\<lambda>buf. map ucast buf),
      today = js ''November 3, 2026''\<rparr>"

definition ex_db :: profiles where
  "ex_db = [js ''u1'' \<mapsto> 5]"

text \<open>A request without an \<open>Authorization\<close> header and with a short resume text.\<close>

definition ex_anonymous :: request where
  "ex_anonymous =
     \<lparr>authorization = None,
      json_body = Returns (VObject [(js ''jobId'', VString (js ''j1'')),
                                    (js ''resumeText'', VString (js ''short''))]),
      form_file = Returns None\<rparr>"

text \<open>An authenticated tailoring or cover-letter request with a resume of 200 letters.\<close>

definition ex_tailor :: request where
  "ex_tailor =
     \<lparr>authorization = Some (js ''Bearer abc''),
      json_body = Returns (VObject [(js ''jobId'', VString (js ''j1'')),
                                    (js ''resumeText'', VString (replicate 200 0x61))]),
      form_file = Returns None\<rparr>"

text \<open>An authenticated generation request: it has an education field and no resume text.\<close>

definition ex_generate :: request where
  "ex_generate =
     \<lparr>authorization = Some (js ''Bearer abc''),
      json_body = Returns (VObject [(js ''education'', VString (js ''BSc''))]),
      form_file = Returns None\<rparr>"

text \<open>An authenticated request with a short resume text.\<close>

definition ex_short :: request where
  "ex_short =
     \<lparr>authorization = Some (js ''Bearer abc''),
      json_body = Returns (VObject [(js ''jobId'', VString (js ''j1'')),
                                    (js ''resumeText'', VString (js ''short''))]),
      form_file = Returns None\<rparr>"

text \<open>Authenticated requests whose body is \<open>null\<close>, and whose resume text is a number.\<close>

definition ex_null_body :: request where
  "ex_null_body =
     \<lparr>authorization = Some (js ''Bearer abc''),
      json_body = Returns VNull,
      form_file = Returns None\<rparr>"

definition ex_numeric_resume :: request where
  "ex_numeric_resume =
     \<lparr>authorization = Some (js ''Bearer abc''),
      json_body = Returns (VObject [(js ''jobId'', VString (js ''j1'')),
                                    (js ''resumeText'', VNumber 12345)]),
      form_file = Returns None\<rparr>"

text \<open>Authenticated uploads: an empty PDF, and a text file of 200 letters.\<close>

definition ex_empty_upload :: request where
  "ex_empty_upload =
     \<lparr>authorization = Some (js ''Bearer abc''),
      json_body = Throws None,
      form_file = Returns (Some (FormFile
        \<lparr>file_name = js ''cv.pdf'', file_type = js ''application/pdf'', file_bytes = []\<rparr>))\<rparr>"

definition ex_text_upload :: request where
  "ex_text_upload =
     \<lparr>authorization = Some (js ''Bearer abc''),
      json_body = Throws None,
      form_file = Returns (Some (FormFile
        \<lparr>file_name = js ''cv.txt'', file_type = js ''text/plain'',
         file_bytes = replicate 200 0x61\<rparr>))\<rparr>"



definition ex_world_broke :: world where
  "ex_world_broke = ex_world
     \<lparr>rpc_consume_credits :=
        (\<lambda>uid n. \<lparr>data = None, error = Some (js ''P0001 INSUFFICIENT_CREDITS'')\<rparr>)\<rparr>"

definition ex_world_nojob :: world where
  "ex_world_nojob = ex_world
     \<lparr>select_job := (\<lambda>jid. \<lparr>data = None, error = Some (js ''no rows'')\<rparr>)\<rparr>"

definition ex_world_nocookies :: world where
  "ex_world_nocookies = ex_world\<lparr>cookies := Throws None\<rparr>"

definition ex_db_broke :: profiles where
  "ex_db_broke = [js ''u1'' \<mapsto> 0]"


text \<open>The row the upload of the text file inserts.\<close>

definition ex_uploaded_row :: doc_insert where
  "ex_uploaded_row =
     \<lparr>ins_user_id = js ''u1'', ins_job_id = None, ins_type = Resume,
      ins_content_text = replicate 200 0x61\<rparr>"

section \<open>Properties of the text normalisation\<close>

text \<open>
  The two regular-expression scans are unfolded one code unit at a time by the equations
  below, which decide the match on the rest of the string.
\<close>

declare collapse_newlines.simps(2) [simp del]
declare replace_trailing_blanks.simps(2) [simp del]

lemma not_blank_LF [simp]: "\<not> is_blank LF"
  by (simp add: is_blank_def SP_def TAB_def LF_def)

lemma CR_neq_LF [simp]: "CR \<noteq> LF" "LF \<noteq> CR"
  by (simp_all add: CR_def LF_def)

lemma collapse_newlines_Cons:
  "collapse_newlines (c # cs) =
     (if c = LF \<and> prefix [LF, LF] cs
      then LF # LF # collapse_newlines (dropWhile (\<lambda>x. x = LF) cs)
      else c # collapse_newlines cs)"
  by (subst collapse_newlines.simps(2)) auto

lemma replace_trailing_blanks_Cons:
  "replace_trailing_blanks (c # cs) =
     (if is_blank c \<and> prefix [LF] (dropWhile is_blank cs)
      then LF # replace_trailing_blanks (tl (dropWhile is_blank cs))
      else c # replace_trailing_blanks cs)"
proof (cases "dropWhile is_blank cs")
  case Nil
  show ?thesis
    by (subst replace_trailing_blanks.simps(2)) (simp add: Nil)
next
  case (Cons d ds)
  show ?thesis
    by (subst replace_trailing_blanks.simps(2)) (simp add: Cons)
qed

lemma length_dropWhile_less: "length (dropWhile P cs) < Suc (length cs)"
  by (simp add: le_imp_less_Suc length_dropWhile_le)

lemma length_tl_dropWhile_less: "length (tl (dropWhile P cs)) < Suc (length cs)"
  by (metis length_dropWhile_less length_tl less_imp_diff_less)

lemma set_tl_subset: "set (tl xs) \<subseteq> set xs"
  by (cases xs) auto

lemma set_tl_dropWhile: "set (tl (dropWhile P cs)) \<subseteq> set cs"
proof -
  have "set (tl (dropWhile P cs)) \<subseteq> set (dropWhile P cs)"
    by (rule set_tl_subset)
  also have "\<dots> \<subseteq> set cs"
    by (meson set_dropWhileD subsetI)
  finally show ?thesis .
qed

lemma replaceAll_scan_CR: "replaceAll_scan [CR] [LF] s = map (\<lambda>c. if c = CR then LF else c) s"
  by (induction s) auto

lemma no_CR_replaceAll: "CR \<notin> set (replaceAll s [CR] [LF])"
  by (auto simp: replaceAll_def replaceAll_scan_CR)

lemma set_replace_trailing_blanks: "set (replace_trailing_blanks s) \<subseteq> insert LF (set s)"
proof (induction s rule: length_induct)
  case (1 s)
  show ?case
  proof (cases s)
    case Nil
    then show ?thesis by simp
  next
    case (Cons c cs)
    have a: "set (replace_trailing_blanks cs) \<subseteq> insert LF (set cs)"
      using 1 Cons by simp
    have "set (replace_trailing_blanks (tl (dropWhile is_blank cs)))
            \<subseteq> insert LF (set (tl (dropWhile is_blank cs)))"
      using 1 Cons length_tl_dropWhile_less [of is_blank cs] by simp
    moreover have "set (tl (dropWhile is_blank cs)) \<subseteq> set cs"
      by (rule set_tl_dropWhile)
    ultimately have b: "set (replace_trailing_blanks (tl (dropWhile is_blank cs))) \<subseteq> insert LF (set cs)"
      by blast
    show ?thesis
      using a b by (auto simp: Cons replace_trailing_blanks_Cons)
  qed
qed

lemma set_collapse_newlines: "set (collapse_newlines s) \<subseteq> set s"
proof (induction s rule: length_induct)
  case (1 s)
  show ?case
  proof (cases s)
    case Nil
    then show ?thesis by simp
  next
    case (Cons c cs)
    have a: "set (collapse_newlines cs) \<subseteq> set cs"
      using 1 Cons by simp
    have "set (collapse_newlines (dropWhile (\<lambda>x. x = LF) cs)) \<subseteq> set (dropWhile (\<lambda>x. x = LF) cs)"
      using 1 Cons length_dropWhile_less [of "\<lambda>x. x = LF" cs] by simp
    then have b: "set (collapse_newlines (dropWhile (\<lambda>x. x = LF) cs)) \<subseteq> set cs"
      by (meson set_dropWhileD subsetD subsetI)
    show ?thesis
      using a b by (auto simp: Cons collapse_newlines_Cons)
  qed
qed

lemma rtb_head: "prefix [LF] (replace_trailing_blanks s) \<longleftrightarrow> prefix [LF] (dropWhile is_blank s)"
  by (cases s) (auto simp: replace_trailing_blanks_Cons)

lemma cn_head: "prefix [x] (collapse_newlines s) \<longleftrightarrow> prefix [x] s"
  by (cases s) (auto simp: collapse_newlines_Cons)

lemma cn_head2:
  assumes "prefix [LF, LF] (collapse_newlines s)"
  shows "prefix [LF, LF] s"
proof (cases s)
  case Nil
  with assms show ?thesis by simp
next
  case (Cons a t)
  show ?thesis
  proof (cases "a = LF \<and> prefix [LF, LF] t")
    case True
    then show ?thesis by (auto simp: Cons prefix_def)
  next
    case False
    have "collapse_newlines s = a # collapse_newlines t"
      by (simp only: Cons collapse_newlines_Cons False if_False)
    with assms have "a = LF" and "prefix [LF] (collapse_newlines t)"
      by simp_all
    then show ?thesis
      by (simp add: Cons cn_head)
  qed
qed

lemma rtb_no_blank_nl:
  assumes "is_blank b"
  shows "\<not> sublist [b, LF] (replace_trailing_blanks s)"
proof (induction s rule: length_induct)
  case (1 s)
  show ?case
  proof (cases s)
    case Nil
    then show ?thesis by simp
  next
    case (Cons c cs)
    have b_ne: "b \<noteq> LF" using assms by auto
    have ih_cs: "\<not> sublist [b, LF] (replace_trailing_blanks cs)"
      using 1 Cons by simp
    have ih_tl: "\<not> sublist [b, LF] (replace_trailing_blanks (tl (dropWhile is_blank cs)))"
      using 1 Cons length_tl_dropWhile_less [of is_blank cs] by simp
    show ?thesis
    proof (cases "is_blank c \<and> prefix [LF] (dropWhile is_blank cs)")
      case True
      have "replace_trailing_blanks s = LF # replace_trailing_blanks (tl (dropWhile is_blank cs))"
        using True by (simp add: Cons replace_trailing_blanks_Cons)
      then show ?thesis
        using ih_tl b_ne by (simp add: sublist_Cons_right)
    next
      case False
      have "\<not> prefix [b, LF] (c # replace_trailing_blanks cs)"
      proof
        assume "prefix [b, LF] (c # replace_trailing_blanks cs)"
        then have "c = b" and "prefix [LF] (replace_trailing_blanks cs)" by simp_all
        then have "is_blank c" and "prefix [LF] (dropWhile is_blank cs)"
          using assms by (simp_all add: rtb_head)
        with False show False by simp
      qed
      moreover have "replace_trailing_blanks s = c # replace_trailing_blanks cs"
        by (simp only: Cons replace_trailing_blanks_Cons False if_False)
      ultimately show ?thesis
        using ih_cs by (simp add: sublist_Cons_right)
    qed
  qed
qed

lemma cn_keeps_no_blank_nl:
  assumes "b \<noteq> LF" and "\<not> sublist [b, LF] s"
  shows "\<not> sublist [b, LF] (collapse_newlines s)"
  using assms(2)
proof (induction s rule: length_induct)
  case (1 s)
  show ?case
  proof (cases s)
    case Nil
    then show ?thesis by simp
  next
    case (Cons c cs)
    from 1(2) have no_cs: "\<not> sublist [b, LF] cs" and no_pre: "\<not> prefix [b, LF] (c # cs)"
      by (simp_all add: Cons sublist_Cons_right)
    have ih_cs: "\<not> sublist [b, LF] (collapse_newlines cs)"
      using 1(1) Cons no_cs by simp
    have "\<not> sublist [b, LF] (dropWhile (\<lambda>x. x = LF) cs)"
      using no_cs sublist_dropWhile sublist_order.order.trans by blast
    then have ih_dw: "\<not> sublist [b, LF] (collapse_newlines (dropWhile (\<lambda>x. x = LF) cs))"
      using 1(1) Cons length_dropWhile_less [of "\<lambda>x. x = LF" cs] by simp
    show ?thesis
    proof (cases "c = LF \<and> prefix [LF, LF] cs")
      case True
      have "collapse_newlines s = LF # LF # collapse_newlines (dropWhile (\<lambda>x. x = LF) cs)"
        using True by (simp add: Cons collapse_newlines_Cons)
      then show ?thesis
        using ih_dw assms(1) by (simp add: sublist_Cons_right)
    next
      case False
      have eq: "collapse_newlines s = c # collapse_newlines cs"
        by (simp only: Cons collapse_newlines_Cons False if_False)
      have "\<not> prefix [b, LF] (c # collapse_newlines cs)"
        using no_pre by (simp add: cn_head)
      then show ?thesis
        using ih_cs eq by (simp add: sublist_Cons_right)
    qed
  qed
qed

lemma cn_no_triple: "\<not> sublist [LF, LF, LF] (collapse_newlines s)"
proof (induction s rule: length_induct)
  case (1 s)
  show ?case
  proof (cases s)
    case Nil
    then show ?thesis by simp
  next
    case (Cons c cs)
    have ih_cs: "\<not> sublist [LF, LF, LF] (collapse_newlines cs)"
      using 1 Cons by simp
    let ?rest = "dropWhile (\<lambda>x. x = LF) cs"
    have ih_dw: "\<not> sublist [LF, LF, LF] (collapse_newlines ?rest)"
      using 1 Cons length_dropWhile_less [of "\<lambda>x. x = LF" cs] by simp
    have "\<not> prefix [LF] ?rest"
      by (metis (mono_tags, lifting) append_Cons hd_dropWhile list.distinct(1) list.sel(1) prefix_def)
    then have no_hd: "\<not> prefix [LF] (collapse_newlines ?rest)"
      by (simp add: cn_head)
    show ?thesis
    proof (cases "c = LF \<and> prefix [LF, LF] cs")
      case True
      have "collapse_newlines s = LF # LF # collapse_newlines ?rest"
        using True by (simp add: Cons collapse_newlines_Cons)
      moreover have "\<not> prefix [LF, LF] (collapse_newlines ?rest)"
        using no_hd by (auto simp: prefix_def)
      ultimately show ?thesis
        using ih_dw no_hd by (simp add: sublist_Cons_right)
    next
      case False
      have eq: "collapse_newlines s = c # collapse_newlines cs"
        by (simp only: Cons collapse_newlines_Cons False if_False)
      have "\<not> prefix [LF, LF, LF] (c # collapse_newlines cs)"
      proof
        assume "prefix [LF, LF, LF] (c # collapse_newlines cs)"
        then have "c = LF" and "prefix [LF, LF] (collapse_newlines cs)" by simp_all
        then have "c = LF \<and> prefix [LF, LF] cs" by (simp add: cn_head2)
        with False show False by simp
      qed
      then show ?thesis
        using ih_cs eq by (simp add: sublist_Cons_right)
    qed
  qed
qed

lemma sublist_trim: "sublist (trim s) s"
proof -
  let ?d = "dropWhile is_js_whitespace s"
  have "suffix (dropWhile is_js_whitespace (rev ?d)) (rev ?d)"
    by (rule suffix_dropWhile)
  then have "prefix (trim s) ?d"
    by (simp add: trim_def suffix_to_prefix)
  then have "sublist (trim s) ?d" by (rule prefix_imp_sublist)
  moreover have "sublist ?d s" by (rule sublist_dropWhile)
  ultimately show ?thesis by (rule sublist_order.order.trans)
qed

lemma trim_ends:
  assumes "trim s \<noteq> []"
  shows "\<not> is_js_whitespace (hd (trim s))" and "\<not> is_js_whitespace (last (trim s))"
proof -
  let ?d = "dropWhile is_js_whitespace s"
  let ?e = "dropWhile is_js_whitespace (rev ?d)"
  have t: "trim s = rev ?e" by (simp add: trim_def)
  with assms have e: "?e \<noteq> []" by simp
  then have "\<not> is_js_whitespace (hd ?e)" by (rule hd_dropWhile)
  then show "\<not> is_js_whitespace (last (trim s))"
    using e by (simp add: t last_rev)
  have "suffix ?e (rev ?d)" by (rule suffix_dropWhile)
  then have p: "prefix (trim s) ?d" by (simp add: t suffix_to_prefix)
  then obtain zs where zs: "?d = trim s @ zs"
    by (auto simp: prefix_def)
  with assms have d: "?d \<noteq> []"
    by (metis append_is_Nil_conv)
  have "hd ?d = hd (trim s)"
    by (subst zs) (simp add: assms)
  moreover have "\<not> is_js_whitespace (hd ?d)" using d by (rule hd_dropWhile)
  ultimately show "\<not> is_js_whitespace (hd (trim s))" by simp
qed

lemma set_trim: "set (trim s) \<subseteq> set s"
  by (rule set_mono_sublist) (rule sublist_trim)

lemma normalizeText_no_CR: "CR \<notin> set (normalizeText raw)"
proof -
  let ?a = "replaceAll (replaceAll raw [CR, LF] [LF]) [CR] [LF]"
  have "set (normalizeText raw) \<subseteq> set (collapse_newlines (replace_trailing_blanks ?a))"
    unfolding normalizeText_def by (rule set_trim)
  also have "\<dots> \<subseteq> set (replace_trailing_blanks ?a)"
    by (rule set_collapse_newlines)
  also have "\<dots> \<subseteq> insert LF (set ?a)"
    by (rule set_replace_trailing_blanks)
  finally show ?thesis
    using no_CR_replaceAll [of "replaceAll raw [CR, LF] [LF]"] by auto
qed

lemma normalizeText_no_blank_nl:
  assumes "is_blank b"
  shows "\<not> sublist [b, LF] (normalizeText raw)"
proof
  let ?a = "replaceAll (replaceAll raw [CR, LF] [LF]) [CR] [LF]"
  assume "sublist [b, LF] (normalizeText raw)"
  then have "sublist [b, LF] (collapse_newlines (replace_trailing_blanks ?a))"
    unfolding normalizeText_def using sublist_trim sublist_order.order.trans by blast
  moreover have "b \<noteq> LF" using assms by auto
  ultimately show False
    using cn_keeps_no_blank_nl [of b "replace_trailing_blanks ?a"] rtb_no_blank_nl [OF assms]
    by blast
qed

lemma normalizeText_no_triple: "\<not> sublist [LF, LF, LF] (normalizeText raw)"
proof
  assume "sublist [LF, LF, LF] (normalizeText raw)"
  then have "sublist [LF, LF, LF] (collapse_newlines (replace_trailing_blanks
               (replaceAll (replaceAll raw [CR, LF] [LF]) [CR] [LF])))"
    unfolding normalizeText_def using sublist_trim sublist_order.order.trans by blast
  then show False by (simp add: cn_no_triple)
qed

lemma normalizeText_ends:
  assumes "normalizeText raw \<noteq> []"
  shows "\<not> is_js_whitespace (hd (normalizeText raw))"
    and "\<not> is_js_whitespace (last (normalizeText raw))"
  using assms trim_ends unfolding normalizeText_def by blast+

section \<open>Runs of the handlers\<close>

lemma fst_emit [simp]: "fst (emit ev r) = ev # fst r"
  and snd_emit [simp]: "snd (emit ev r) = snd r"
  and fst_emits [simp]: "fst (emits evs r) = evs @ fst r"
  and snd_emits [simp]: "snd (emits evs r) = snd r"
  by (simp_all add: emit_def emits_def)

lemma fst_reply [simp]: "fst (reply st b) = []"
  and snd_reply [simp]: "snd (reply st b) = \<lparr>status = st, body = b\<rparr>"
  by (simp_all add: reply_def)

lemma fst_error_reply [simp]: "fst (error_reply st m) = []"
  and snd_error_reply [simp]:
    "snd (error_reply st m) = \<lparr>status = st, body = [(''error'', JStr m)]\<rparr>"
  by (simp_all add: error_reply_def)

lemma extract_text_events:
  "set (fst (extract_text w filename mime buf)) \<subseteq> {ParsePdf, ParseDocx}"
  by (auto simp: extract_text_def split: outcome.splits)

lemma extract_text_no_insert [simp]:
  "InsertDocument row \<notin> set (fst (extract_text w filename mime buf))"
  using extract_text_events [of w filename mime buf] by auto

lemma callOpenAI_events: "set (fst (callOpenAI env w)) \<subseteq> {Completion}"
  by (auto simp: callOpenAI_def split: outcome.splits)

section \<open>JavaScript numbers and request bodies\<close>


lemma to_number_nonpos:
  assumes "x \<le> 0"
  shows "to_number x \<le> 0"
proof (cases "\<bar>x\<bar> < 2 ^ 53")
  case True
  with assms show ?thesis by (simp add: to_number_def)
next
  case False
  have *: "sgn x * ((if P then q else q + 1) * u) \<le> 0" if "0 \<le> q" "0 < u" for P and q u :: int
  proof -
    have "0 \<le> (if P then q else q + 1) * u" using that by simp
    moreover have "sgn x \<le> 0" using assms by (simp add: sgn_if)
    ultimately show ?thesis by (simp add: mult_nonpos_nonneg)
  qed
  have "to_number x = sgn x * ((if 2 * (\<bar>x\<bar> mod 2 ^ (bit_length \<bar>x\<bar> - 53)) < 2 ^ (bit_length \<bar>x\<bar> - 53)
        \<or> (2 * (\<bar>x\<bar> mod 2 ^ (bit_length \<bar>x\<bar> - 53)) = 2 ^ (bit_length \<bar>x\<bar> - 53)
            \<and> even (\<bar>x\<bar> div 2 ^ (bit_length \<bar>x\<bar> - 53)))
        then \<bar>x\<bar> div 2 ^ (bit_length \<bar>x\<bar> - 53)
        else \<bar>x\<bar> div 2 ^ (bit_length \<bar>x\<bar> - 53) + 1) * 2 ^ (bit_length \<bar>x\<bar> - 53))"
    unfolding to_number_def Let_def using False by (simp only: if_False)
  also have "\<dots> \<le> 0"
    by (rule *) (simp_all add: pos_imp_zdiv_nonneg_iff)
  finally show ?thesis .
qed

lemma resumeText_rejected_short:
  assumes "short_resume_text req" and "json_body req = Returns b"
  shows "resumeText_rejected w (property b ''resumeText'') = Returns True"
  using assms
  by (auto simp: short_resume_text_def resumeText_rejected_def
      split: option.splits jsvalue.splits)

lemma property_with_resumeText:
  "js name \<noteq> js ''resumeText'' \<Longrightarrow> property (with_resumeText b v) name = property b name"
  by (cases b) (simp_all add: property_def with_resumeText_def)

lemma with_resumeText_null [simp]: "with_resumeText b v = VNull \<longleftrightarrow> b = VNull"
  by (cases b) (simp_all add: with_resumeText_def)



section \<open>Requests without a bearer token\<close>

lemma no_bearer_token:
  assumes "\<forall>t. authorization req = Some (js ''Bearer '' @ t) \<longrightarrow> t = []"
  shows "bearer_token (authorization req) = None \<or> bearer_token (authorization req) = Some []"
proof (cases "authorization req")
  case None
  then show ?thesis by (simp add: bearer_token_def or_else_def startsWith_def js_def)
next
  case (Some h)
  show ?thesis
  proof (cases "prefix (js ''Bearer '') h")
    case True
    then obtain t where h: "h = js ''Bearer '' @ t" by (auto simp: prefix_def)
    with assms Some have "t = []" by simp
    with h have "h = js ''Bearer ''" by simp
    then show ?thesis
      by (simp add: Some bearer_token_def or_else_def startsWith_def slice_def js_def)
  next
    case False
    then have "\<not> startsWith (or_else (Some h) []) (js ''Bearer '')"
      by (auto simp: or_else_def startsWith_def js_def)
    then show ?thesis by (simp add: Some bearer_token_def)
  qed
qed

lemma bearer_token_present:
  "(\<exists>tok. bearer_token (authorization req) = Some tok \<and> tok \<noteq> [])
   \<longleftrightarrow> (\<exists>t. t \<noteq> [] \<and> authorization req = Some (js ''Bearer '' @ t))"
proof
  assume "\<exists>tok. bearer_token (authorization req) = Some tok \<and> tok \<noteq> []"
  then obtain tok where t: "bearer_token (authorization req) = Some tok" "tok \<noteq> []" by blast
  have "\<not> (\<forall>t. authorization req = Some (js ''Bearer '' @ t) \<longrightarrow> t = [])"
    using no_bearer_token [of req] t by auto
  then show "\<exists>t. t \<noteq> [] \<and> authorization req = Some (js ''Bearer '' @ t)" by blast
next
  assume "\<exists>t. t \<noteq> [] \<and> authorization req = Some (js ''Bearer '' @ t)"
  then obtain t where t: "t \<noteq> []" "authorization req = Some (js ''Bearer '' @ t)" by blast
  have "bearer_token (authorization req) = Some t"
    by (simp add: t bearer_token_def or_else_def startsWith_def slice_def js_def)
  with t show "\<exists>tok. bearer_token (authorization req) = Some tok \<and> tok \<noteq> []" by blast
qed

text \<open>
  C1 (as amended). A request that carries no \<open>Authorization: Bearer <token>\<close> header
  (no header, another scheme, or an empty token) gets status 401 from each of the four
  POST routes when what the route does before it looks at the header succeeds: from the
  tailoring route when its module can be loaded, that is, when the completion client can
  be constructed from \<open>OPENAI_API_KEY\<close> (else every request to it gets 500); from the
  cover-letter and resume-generation routes when the two store keys of the environment
  are set, which these routes require first (else 500); from the upload route when its
  cookie-based client can be made, which it does first. The GET route that reports the
  environment keys checks no token: it answers every request with 200.
\<close>

theorem no_bearer_token_401:
  assumes "\<forall>t. authorization req = Some (js ''Bearer '' @ t) \<longrightarrow> t = []"
  shows "(tailor_module_loads env w
            \<longrightarrow> status (snd (serve env w db PostTailorResume req)) = 401)
       \<and> (\<not> tailor_module_loads env w
            \<longrightarrow> status (snd (serve env w db PostTailorResume req)) = 500)
       \<and> (truthy_env env ''NEXT_PUBLIC_SUPABASE_URL'' \<and> truthy_env env ''NEXT_PUBLIC_SUPABASE_ANON_KEY''
            \<longrightarrow> status (snd (serve env w db PostCoverLetter req)) = 401
              \<and> status (snd (serve env w db PostGenerateResume req)) = 401)
       \<and> (\<not> (truthy_env env ''NEXT_PUBLIC_SUPABASE_URL''
               \<and> truthy_env env ''NEXT_PUBLIC_SUPABASE_ANON_KEY'')
            \<longrightarrow> status (snd (serve env w db PostCoverLetter req)) = 500
              \<and> status (snd (serve env w db PostGenerateResume req)) = 500)
       \<and> (cookies w = Returns ()
            \<and> createServerClient w (env ''NEXT_PUBLIC_SUPABASE_URL'')
                  (env ''NEXT_PUBLIC_SUPABASE_ANON_KEY'') = Returns ()
            \<longrightarrow> status (snd (serve env w db PostResumeUpload req)) = 401)
       \<and> status (snd (serve env w db GetEnv req)) = 200"
  using no_bearer_token [OF assms]
  by (auto simp: serve_def tailor_resume_POST_def cover_letter_POST_def generate_resume_POST_def
      resume_upload_POST_def env_GET_def caught_def requireEnv_def truthy_env_def
      split: option.splits)

theorem no_bearer_token_401_witness:
  "status (snd (serve ex_env ex_world ex_db PostTailorResume ex_anonymous)) = 401
   \<and> status (snd (serve ex_env ex_world ex_db PostCoverLetter ex_anonymous)) = 401
   \<and> status (snd (serve ex_env ex_world ex_db PostGenerateResume ex_anonymous)) = 401
   \<and> status (snd (serve ex_env ex_world ex_db PostResumeUpload ex_anonymous)) = 401
   \<and> status (snd (serve ex_env ex_world ex_db GetEnv ex_anonymous)) = 200
   \<and> \<not> tailor_module_loads ex_env_nokey ex_world
   \<and> status (snd (serve ex_env_nokey ex_world ex_db PostTailorResume ex_anonymous)) = 500
   \<and> \<not> truthy_env Map.empty ''NEXT_PUBLIC_SUPABASE_URL''
   \<and> status (snd (serve Map.empty ex_world ex_db PostCoverLetter ex_anonymous)) = 500
   \<and> status (snd (serve Map.empty ex_world ex_db PostGenerateResume ex_anonymous)) = 500"
proof -
  have a: "\<forall>t. authorization ex_anonymous = Some (js ''Bearer '' @ t) \<longrightarrow> t = []"
    by (simp add: ex_anonymous_def)
  have l: "tailor_module_loads ex_env ex_world"
    by code_simp
  have e: "truthy_env ex_env ''NEXT_PUBLIC_SUPABASE_URL''
         \<and> truthy_env ex_env ''NEXT_PUBLIC_SUPABASE_ANON_KEY''"
    by code_simp
  have c: "cookies ex_world = Returns ()
         \<and> createServerClient ex_world (ex_env ''NEXT_PUBLIC_SUPABASE_URL'')
              (ex_env ''NEXT_PUBLIC_SUPABASE_ANON_KEY'') = Returns ()"
    by (simp add: ex_world_def)
  have n: "\<not> tailor_module_loads ex_env_nokey ex_world"
    by code_simp
  have m: "\<not> truthy_env Map.empty ''NEXT_PUBLIC_SUPABASE_URL''"
    by (simp add: truthy_env_def)
  from no_bearer_token_401 [OF a, of ex_env ex_world ex_db]
    no_bearer_token_401 [OF a, of ex_env_nokey ex_world ex_db]
    no_bearer_token_401 [OF a, of Map.empty ex_world ex_db] l e c n m
  show ?thesis by blast
qed

text \<open>
  The claim as stated fails on the GET route, which answers 200 to a request without a
  header; on the cover-letter route when the environment is empty, where the missing key
  is reported with 500 before the header is read; on the upload route when the cookie
  store cannot be read, which is reported with 500 before the header is read; and on the
  tailoring route when the key of the completion API is unset, where the module of the
  route cannot be loaded.
\<close>

theorem no_bearer_token_counterexample:
  "authorization ex_anonymous = None
   \<and> status (snd (serve ex_env ex_world ex_db GetEnv ex_anonymous)) = 200
   \<and> status (snd (serve Map.empty ex_world ex_db PostCoverLetter ex_anonymous)) = 500
   \<and> status (snd (serve ex_env ex_world_nocookies ex_db PostResumeUpload ex_anonymous)) = 500
   \<and> status (snd (serve ex_env_nokey ex_world ex_db PostTailorResume ex_anonymous)) = 500"
  by code_simp

section \<open>The balance update of the tailoring route\<close>






section \<open>Insufficient credits\<close>

lemma callOpenAI_no_consume [simp]: "ConsumeCredits uid n \<notin> set (fst (callOpenAI env w))"
  using callOpenAI_events [of env w] by auto

lemma cover_letter_consume_inv:
  assumes "ConsumeCredits uid n \<in> set (fst (cover_letter_POST env w req))"
  shows "\<exists>url anon token b jobId u j.
           requireEnv env ''NEXT_PUBLIC_SUPABASE_URL'' = Returns url
         \<and> requireEnv env ''NEXT_PUBLIC_SUPABASE_ANON_KEY'' = Returns anon
         \<and> bearer_token (authorization req) = Some token \<and> token \<noteq> []
         \<and> createClient w (Some url) (Some anon) = Returns ()
         \<and> json_body req = Returns b
         \<and> property b ''jobId'' = Some jobId \<and> truthy (Some jobId)
         \<and> error (getUser w token) = None \<and> data (getUser w token) = Some u
         \<and> error (select_job w jobId) = None
         \<and> data (select_job w jobId) = Some j
         \<and> uid = user_id u \<and> n = 1"
  using assms
  unfolding cover_letter_POST_def caught_def
  by (auto simp: Let_def split: outcome.splits option.splits if_splits)

lemma cover_letter_credit_error:
  assumes "ConsumeCredits uid n \<in> set (fst (cover_letter_POST env w req))"
      and "error (rpc_consume_credits w uid n) = Some msg"
  shows "snd (cover_letter_POST env w req) =
           (if includes_str msg (js ''INSUFFICIENT_CREDITS'')
            then \<lparr>status = 402, body = [(''error'', JStr (js ''Insufficient credits''))]\<rparr>
            else \<lparr>status = 500, body = [(''error'', JStr (js ''Credit error: '' @ msg))]\<rparr>)"
proof -
  from cover_letter_consume_inv [OF assms(1)] obtain url anon token b jobId u j where
    f: "requireEnv env ''NEXT_PUBLIC_SUPABASE_URL'' = Returns url"
       "requireEnv env ''NEXT_PUBLIC_SUPABASE_ANON_KEY'' = Returns anon"
       "bearer_token (authorization req) = Some token" "token \<noteq> []"
       "createClient w (Some url) (Some anon) = Returns ()"
       "json_body req = Returns b"
       "property b ''jobId'' = Some jobId" "truthy (Some jobId)"
       "error (getUser w token) = None" "data (getUser w token) = Some u"
       "error (select_job w jobId) = None"
       "data (select_job w jobId) = Some j"
       "uid = user_id u" "n = 1"
    by blast
  from assms(2) f have "error (rpc_consume_credits w (user_id u) 1) = Some msg" by simp
  then show ?thesis
    unfolding cover_letter_POST_def by (simp add: f Let_def)
qed

lemma generate_resume_consume_inv:
  assumes "ConsumeCredits uid n \<in> set (fst (generate_resume_POST env w req))"
  shows "\<exists>url anon token b u content.
           requireEnv env ''NEXT_PUBLIC_SUPABASE_URL'' = Returns url
         \<and> requireEnv env ''NEXT_PUBLIC_SUPABASE_ANON_KEY'' = Returns anon
         \<and> bearer_token (authorization req) = Some token \<and> token \<noteq> []
         \<and> createClient w (Some url) (Some anon) = Returns ()
         \<and> json_body req = Returns b
         \<and> error (getUser w token) = None \<and> data (getUser w token) = Some u
         \<and> hasContent w b = Returns content \<and> content \<noteq> []
         \<and> uid = user_id u \<and> n = 1"
  using assms
  unfolding generate_resume_POST_def caught_def
  by (auto simp: Let_def split: outcome.splits option.splits if_splits)

lemma generate_resume_credit_error:
  assumes "ConsumeCredits uid n \<in> set (fst (generate_resume_POST env w req))"
      and "error (rpc_consume_credits w uid n) = Some msg"
  shows "snd (generate_resume_POST env w req) =
           (if includes_str msg (js ''INSUFFICIENT_CREDITS'')
            then \<lparr>status = 402, body = [(''error'', JStr (js ''Insufficient credits''))]\<rparr>
            else \<lparr>status = 500, body = [(''error'', JStr (js ''Credit error: '' @ msg))]\<rparr>)"
proof -
  from generate_resume_consume_inv [OF assms(1)] obtain url anon token b u content where
    f: "requireEnv env ''NEXT_PUBLIC_SUPABASE_URL'' = Returns url"
       "requireEnv env ''NEXT_PUBLIC_SUPABASE_ANON_KEY'' = Returns anon"
       "bearer_token (authorization req) = Some token" "token \<noteq> []"
       "createClient w (Some url) (Some anon) = Returns ()"
       "json_body req = Returns b"
       "error (getUser w token) = None" "data (getUser w token) = Some u"
       "hasContent w b = Returns content" "content \<noteq> []"
       "uid = user_id u" "n = 1"
    by blast
  from assms(2) f have "error (rpc_consume_credits w (user_id u) 1) = Some msg" by simp
  then show ?thesis
    unfolding generate_resume_POST_def by (simp add: f Let_def)
qed

lemma tailor_select_profile_inv:
  assumes "SelectProfile uid \<in> set (fst (fst (tailor_resume_POST env w req db)))"
  shows "\<exists>token b jobId u.
           tailor_module_loads env w
         \<and> bearer_token (authorization req) = Some token \<and> token \<noteq> []
         \<and> json_body req = Returns b \<and> b \<noteq> VNull
         \<and> property b ''jobId'' = Some jobId \<and> truthy (Some jobId)
         \<and> resumeText_rejected w (property b ''resumeText'') = Returns False
         \<and> createClient w (env ''NEXT_PUBLIC_SUPABASE_URL'') (env ''NEXT_PUBLIC_SUPABASE_ANON_KEY'')
             = Returns ()
         \<and> error (getUser w token) = None \<and> data (getUser w token) = Some u
         \<and> uid = user_id u"
  using assms
  unfolding tailor_resume_POST_def caught_tailor_def
  by (auto simp: Let_def split: outcome.splits option.splits if_splits)

lemma tailor_no_credits:
  assumes "SelectProfile uid \<in> set (fst (fst (tailor_resume_POST env w req db)))"
      and "select_profile_error w = None" and "db uid = Some c" and "c \<le> 0"
  shows "snd (fst (tailor_resume_POST env w req db)) =
           \<lparr>status = 402, body = [(''error'', JStr (js ''No credits remaining''))]\<rparr>"
proof -
  from tailor_select_profile_inv [OF assms(1)] obtain token b jobId u where
    f: "tailor_module_loads env w"
       "bearer_token (authorization req) = Some token" "token \<noteq> []"
       "json_body req = Returns b" "b \<noteq> VNull"
       "property b ''jobId'' = Some jobId" "truthy (Some jobId)"
       "resumeText_rejected w (property b ''resumeText'') = Returns False"
       "createClient w (env ''NEXT_PUBLIC_SUPABASE_URL'') (env ''NEXT_PUBLIC_SUPABASE_ANON_KEY'')
             = Returns ()"
       "error (getUser w token) = None" "data (getUser w token) = Some u"
       "uid = user_id u"
    by blast
  from assms f have "db (user_id u) = Some c" by simp
  moreover from assms(4) have "to_number c \<le> 0" by (rule to_number_nonpos)
  ultimately show ?thesis
    unfolding tailor_resume_POST_def
    by (simp add: f assms(2) Let_def emit_def error_reply_def reply_def)
qed

text \<open>
  C5. Whenever the insufficient-credits condition is signalled, the route responds with
  status 402 and a body \<open>{error: string}\<close>: in the cover-letter and resume-generation
  routes when the \<open>consume_credits\<close> call they made returns an error whose message
  contains \<open>INSUFFICIENT_CREDITS\<close>; in the tailoring route when the balance it read is
  at most 0.
\<close>

theorem insufficient_credits_402:
  "(ConsumeCredits uid n \<in> set (fst (cover_letter_POST env w req))
      \<and> error (rpc_consume_credits w uid n) = Some msg
      \<and> includes_str msg (js ''INSUFFICIENT_CREDITS'')
    \<longrightarrow> snd (cover_letter_POST env w req) =
          \<lparr>status = 402, body = [(''error'', JStr (js ''Insufficient credits''))]\<rparr>)
 \<and> (ConsumeCredits uid n \<in> set (fst (generate_resume_POST env w req))
      \<and> error (rpc_consume_credits w uid n) = Some msg
      \<and> includes_str msg (js ''INSUFFICIENT_CREDITS'')
    \<longrightarrow> snd (generate_resume_POST env w req) =
          \<lparr>status = 402, body = [(''error'', JStr (js ''Insufficient credits''))]\<rparr>)
 \<and> (SelectProfile uid \<in> set (fst (fst (tailor_resume_POST env w req db)))
      \<and> select_profile_error w = None \<and> db uid = Some c \<and> c \<le> 0
    \<longrightarrow> snd (fst (tailor_resume_POST env w req db)) =
          \<lparr>status = 402, body = [(''error'', JStr (js ''No credits remaining''))]\<rparr>)"
  using cover_letter_credit_error [of uid n env w req msg]
    generate_resume_credit_error [of uid n env w req msg]
    tailor_no_credits [of uid env w req db c]
  by simp

theorem insufficient_credits_402_witness:
  "status (snd (cover_letter_POST ex_env ex_world_broke ex_tailor)) = 402
 \<and> status (snd (generate_resume_POST ex_env ex_world_broke ex_generate)) = 402
 \<and> status (snd (fst (tailor_resume_POST ex_env ex_world ex_tailor ex_db_broke))) = 402"
proof -
  have a: "ConsumeCredits (js ''u1'') 1 \<in> set (fst (cover_letter_POST ex_env ex_world_broke ex_tailor))"
    by code_simp
  have b: "ConsumeCredits (js ''u1'') 1
             \<in> set (fst (generate_resume_POST ex_env ex_world_broke ex_generate))"
    by code_simp
  have e: "error (rpc_consume_credits ex_world_broke (js ''u1'') 1)
             = Some (js ''P0001 INSUFFICIENT_CREDITS'')"
    by code_simp
  have i: "includes_str (js ''P0001 INSUFFICIENT_CREDITS'') (js ''INSUFFICIENT_CREDITS'')"
    by code_simp
  have s: "SelectProfile (js ''u1'')
             \<in> set (fst (fst (tailor_resume_POST ex_env ex_world ex_tailor ex_db_broke)))"
    by code_simp
  have p: "select_profile_error ex_world = None" by code_simp
  have d: "ex_db_broke (js ''u1'') = Some 0" by code_simp
  from insufficient_credits_402 [where uid = "js ''u1''" and n = 1 and env = ex_env
      and w = ex_world_broke and req = ex_tailor and msg = "js ''P0001 INSUFFICIENT_CREDITS''"] a e i
  have 1: "status (snd (cover_letter_POST ex_env ex_world_broke ex_tailor)) = 402" by simp
  from insufficient_credits_402 [where uid = "js ''u1''" and n = 1 and env = ex_env
      and w = ex_world_broke and req = ex_generate and msg = "js ''P0001 INSUFFICIENT_CREDITS''"] b e i
  have 2: "status (snd (generate_resume_POST ex_env ex_world_broke ex_generate)) = 402" by simp
  from insufficient_credits_402 [where uid = "js ''u1''" and env = ex_env and w = ex_world
      and req = ex_tailor and db = ex_db_broke and c = 0] s p d
  have 3: "status (snd (fst (tailor_resume_POST ex_env ex_world ex_tailor ex_db_broke))) = 402"
    by simp
  from 1 2 3 show ?thesis by simp
qed

section \<open>Shapes of the responses\<close>

lemma cover_letter_shape:
  "status (snd (cover_letter_POST env w req)) = 200
     \<and> map fst (body (snd (cover_letter_POST env w req))) = [''document'', ''creditsRemaining'']
   \<or> status (snd (cover_letter_POST env w req)) \<in> {400, 401, 402, 404, 500}
     \<and> (\<exists>m. body (snd (cover_letter_POST env w req)) = [(''error'', JStr m)])"
  unfolding cover_letter_POST_def caught_def
  by (simp add: Let_def split: outcome.splits option.splits if_splits)

lemma generate_resume_shape:
  "status (snd (generate_resume_POST env w req)) = 200
     \<and> map fst (body (snd (generate_resume_POST env w req))) = [''document'', ''creditsRemaining'']
   \<or> status (snd (generate_resume_POST env w req)) \<in> {400, 401, 402, 500}
     \<and> (\<exists>m. body (snd (generate_resume_POST env w req)) = [(''error'', JStr m)])"
  unfolding generate_resume_POST_def caught_def
  by (simp add: Let_def split: outcome.splits option.splits if_splits)

lemma tailor_not_loaded:
  "\<not> tailor_module_loads env w \<Longrightarrow> tailor_resume_POST env w req db = (reply 500 [], db)"
  by (simp add: tailor_resume_POST_def)

lemma tailor_resume_shape:
  assumes "tailor_module_loads env w"
  shows "status (snd (fst (tailor_resume_POST env w req db))) = 200
     \<and> map fst (body (snd (fst (tailor_resume_POST env w req db)))) = [''document'']
   \<or> status (snd (fst (tailor_resume_POST env w req db))) \<in> {400, 401, 402, 404, 500}
     \<and> (\<exists>m. body (snd (fst (tailor_resume_POST env w req db))) = [(''error'', JStr m)])"
  unfolding tailor_resume_POST_def caught_tailor_def
  by (simp add: assms Let_def split: outcome.splits option.splits if_splits)

lemma resume_upload_shape:
  "status (snd (resume_upload_POST env w req)) = 200
     \<and> map fst (body (snd (resume_upload_POST env w req))) = [''document'']
   \<or> status (snd (resume_upload_POST env w req)) \<in> {400, 401, 500}
     \<and> (\<exists>m. body (snd (resume_upload_POST env w req)) = [(''error'', JStr m)])"
  unfolding resume_upload_POST_def caught_upload_def
  by (simp add: Let_def
      split: outcome.splits option.splits if_splits form_entry.splits extraction.splits)

lemma shape_error:
  assumes "st = 200 \<and> map fst b = fs \<or> st \<in> S \<and> (\<exists>m. b = [(''error'', JStr m)])"
      and "''error'' \<notin> set fs" and "S \<subseteq> {400, 401, 402, 404, 500}"
  shows "(st \<noteq> (200::nat) \<or> ''error'' \<in> set (map fst b) \<longrightarrow> st \<in> {400, 401, 402, 404, 500})
       \<and> (st \<noteq> 200 \<or> ''error'' \<in> set (map fst b) \<longrightarrow> (\<exists>m. b = [(''error'', JStr m)]))"
  using assms by blast

text \<open>
  C8 (as amended). Every error response of every route (a response whose status is not
  200 or whose body has an \<open>error\<close> field) has a status in
  \<open>{400, 401, 402, 404, 500}\<close>; 404 is what the cover-letter and tailoring routes
  answer when the job cannot be loaded. Its body has the form \<open>{error: string}\<close>, with
  one exception: when the module of the tailoring route cannot be loaded, because the
  completion client cannot be constructed from \<open>OPENAI_API_KEY\<close>, every request to that
  route gets status 500 without a JSON body.
\<close>

theorem error_responses:
  "(status (snd (serve env w db r req)) \<noteq> 200
      \<or> ''error'' \<in> set (map fst (body (snd (serve env w db r req))))
    \<longrightarrow> status (snd (serve env w db r req)) \<in> {400, 401, 402, 404, 500})
 \<and> (\<not> (r = PostTailorResume \<and> \<not> tailor_module_loads env w)
    \<longrightarrow> status (snd (serve env w db r req)) \<noteq> 200
      \<or> ''error'' \<in> set (map fst (body (snd (serve env w db r req))))
    \<longrightarrow> (\<exists>m. body (snd (serve env w db r req)) = [(''error'', JStr m)]))
 \<and> (r = PostTailorResume \<and> \<not> tailor_module_loads env w
    \<longrightarrow> snd (serve env w db r req) = \<lparr>status = 500, body = []\<rparr>)"
proof (cases r)
  case PostCoverLetter
  show ?thesis
    unfolding PostCoverLetter serve_def route.case
    using shape_error [OF cover_letter_shape [of env w req]] by simp
next
  case PostGenerateResume
  show ?thesis
    unfolding PostGenerateResume serve_def route.case
    using shape_error [OF generate_resume_shape [of env w req]] by simp
next
  case PostTailorResume
  show ?thesis
  proof (cases "tailor_module_loads env w")
    case True
    show ?thesis
      unfolding PostTailorResume serve_def route.case
      using shape_error [OF tailor_resume_shape [OF True, of req db]] True by simp
  next
    case False
    show ?thesis
      unfolding PostTailorResume serve_def route.case
      by (simp add: tailor_not_loaded [OF False] False)
  qed
next
  case PostResumeUpload
  show ?thesis
    unfolding PostResumeUpload serve_def route.case
    using shape_error [OF resume_upload_shape [of env w req]] by simp
next
  case GetEnv
  show ?thesis
    unfolding GetEnv serve_def route.case
    by (simp add: env_GET_def)
qed

theorem error_responses_witness:
  "status (snd (serve ex_env ex_world_nojob ex_db PostCoverLetter ex_tailor)) = 404
   \<and> body (snd (serve ex_env ex_world_nojob ex_db PostCoverLetter ex_tailor))
       = [(''error'', JStr (js ''Job not found''))]
   \<and> \<not> tailor_module_loads ex_env_nokey ex_world
   \<and> snd (serve ex_env_nokey ex_world ex_db PostTailorResume ex_tailor)
       = \<lparr>status = 500, body = []\<rparr>"
proof -
  have s: "status (snd (serve ex_env ex_world_nojob ex_db PostCoverLetter ex_tailor)) = 404"
    by code_simp
  have b: "body (snd (serve ex_env ex_world_nojob ex_db PostCoverLetter ex_tailor))
       = [(''error'', JStr (js ''Job not found''))]"
    by code_simp
  have n: "\<not> tailor_module_loads ex_env_nokey ex_world"
    by code_simp
  from error_responses [of ex_env ex_world_nojob ex_db PostCoverLetter ex_tailor]
    error_responses [of ex_env_nokey ex_world ex_db PostTailorResume ex_tailor] s b n
  show ?thesis by simp
qed

text \<open>
  The claim as stated leaves 404 out: the cover-letter route answers 404 when the job
  is not found. And the 500 of the tailoring route whose module cannot be loaded has no
  \<open>error\<close> field.
\<close>

theorem error_responses_counterexample:
  "status (snd (serve ex_env ex_world_nojob ex_db PostCoverLetter ex_tailor)) \<notin> {400, 401, 402, 500}
   \<and> status (snd (serve ex_env_nokey ex_world ex_db PostTailorResume ex_tailor)) = 500
   \<and> body (snd (serve ex_env_nokey ex_world ex_db PostTailorResume ex_tailor)) = []"
  by code_simp

lemma shape_split:
  assumes "st = 200 \<and> map fst b = fs \<or> st \<in> S \<and> (\<exists>m. b = [(''error'', JStr m)])"
      and "200 \<notin> S"
  shows "(st = (200::nat) \<longrightarrow> map fst b = fs)
       \<and> (st \<noteq> 200 \<longrightarrow> (\<exists>m. b = [(''error'', JStr m)]))"
  using assms by blast

text \<open>
  C2 (as amended). A successful request to the resume-generation or the cover-letter
  route gets a body with the fields \<open>document\<close> and \<open>creditsRemaining\<close>; a successful
  request to the tailoring route gets a body with the field \<open>document\<close> only; a failed
  request to the resume-generation or the cover-letter route gets a body
  \<open>{error: string}\<close>, and so does a failed request to the tailoring route when the
  module of that route could be loaded. When it could not, because the completion
  client cannot be constructed from \<open>OPENAI_API_KEY\<close>, every request to the tailoring
  route fails with status 500 and no JSON body.
\<close>

theorem generation_response_shape:
  "(r = PostCoverLetter \<or> r = PostGenerateResume
      \<longrightarrow> status (snd (serve env w db r req)) = 200
      \<longrightarrow> map fst (body (snd (serve env w db r req))) = [''document'', ''creditsRemaining''])
 \<and> (r = PostTailorResume
      \<longrightarrow> status (snd (serve env w db r req)) = 200
      \<longrightarrow> map fst (body (snd (serve env w db r req))) = [''document''])
 \<and> (r = PostCoverLetter \<or> r = PostGenerateResume
        \<or> (r = PostTailorResume \<and> tailor_module_loads env w)
      \<longrightarrow> status (snd (serve env w db r req)) \<noteq> 200
      \<longrightarrow> (\<exists>m. body (snd (serve env w db r req)) = [(''error'', JStr m)]))
 \<and> (r = PostTailorResume \<and> \<not> tailor_module_loads env w
      \<longrightarrow> snd (serve env w db r req) = \<lparr>status = 500, body = []\<rparr>)"
proof (cases r)
  case PostCoverLetter
  have "serve env w db r req = cover_letter_POST env w req"
    by (simp add: PostCoverLetter serve_def)
  with shape_split [OF cover_letter_shape [of env w req]] show ?thesis
    by (simp add: PostCoverLetter)
next
  case PostGenerateResume
  have "serve env w db r req = generate_resume_POST env w req"
    by (simp add: PostGenerateResume serve_def)
  with shape_split [OF generate_resume_shape [of env w req]] show ?thesis
    by (simp add: PostGenerateResume)
next
  case PostTailorResume
  have s: "serve env w db r req = fst (tailor_resume_POST env w req db)"
    by (simp add: PostTailorResume serve_def)
  show ?thesis
  proof (cases "tailor_module_loads env w")
    case True
    with s shape_split [OF tailor_resume_shape [OF True, of req db]] show ?thesis
      by (simp add: PostTailorResume)
  next
    case False
    with s show ?thesis
      by (simp add: PostTailorResume tailor_not_loaded [OF False])
  qed
next
  case PostResumeUpload
  then show ?thesis by simp
next
  case GetEnv
  then show ?thesis by simp
qed

theorem generation_response_shape_witness:
  "status (snd (serve ex_env ex_world ex_db PostCoverLetter ex_tailor)) = 200
   \<and> map fst (body (snd (serve ex_env ex_world ex_db PostCoverLetter ex_tailor)))
       = [''document'', ''creditsRemaining'']
   \<and> status (snd (serve ex_env ex_world ex_db PostTailorResume ex_tailor)) = 200
   \<and> map fst (body (snd (serve ex_env ex_world ex_db PostTailorResume ex_tailor))) = [''document'']
   \<and> status (snd (serve ex_env ex_world ex_db PostGenerateResume ex_anonymous)) = 401
   \<and> (\<exists>m. body (snd (serve ex_env ex_world ex_db PostGenerateResume ex_anonymous))
          = [(''error'', JStr m)])
   \<and> tailor_module_loads ex_env ex_world
   \<and> status (snd (serve ex_env ex_world ex_db PostTailorResume ex_anonymous)) = 401
   \<and> (\<exists>m. body (snd (serve ex_env ex_world ex_db PostTailorResume ex_anonymous))
          = [(''error'', JStr m)])
   \<and> \<not> tailor_module_loads ex_env_nokey ex_world
   \<and> snd (serve ex_env_nokey ex_world ex_db PostTailorResume ex_tailor)
       = \<lparr>status = 500, body = []\<rparr>"
proof -
  have a: "status (snd (serve ex_env ex_world ex_db PostCoverLetter ex_tailor)) = 200"
    by code_simp
  have b: "status (snd (serve ex_env ex_world ex_db PostTailorResume ex_tailor)) = 200"
    by code_simp
  have c: "status (snd (serve ex_env ex_world ex_db PostGenerateResume ex_anonymous)) = 401"
    by code_simp
  have d: "status (snd (serve ex_env ex_world ex_db PostTailorResume ex_anonymous)) = 401"
    by code_simp
  have l: "tailor_module_loads ex_env ex_world"
    by code_simp
  have n: "\<not> tailor_module_loads ex_env_nokey ex_world"
    by code_simp
  from generation_response_shape [of PostCoverLetter ex_env ex_world ex_db ex_tailor]
    generation_response_shape [of PostTailorResume ex_env ex_world ex_db ex_tailor]
    generation_response_shape [of PostGenerateResume ex_env ex_world ex_db ex_anonymous]
    generation_response_shape [of PostTailorResume ex_env ex_world ex_db ex_anonymous]
    generation_response_shape [of PostTailorResume ex_env_nokey ex_world ex_db ex_tailor]
    a b c d l n
  show ?thesis by simp
qed

text \<open>
  The claim as stated fails on the tailoring route, whose successful response has no
  \<open>creditsRemaining\<close> field, and whose failure to load answers without an \<open>error\<close>
  field.
\<close>

theorem tailor_response_counterexample:
  "status (snd (serve ex_env ex_world ex_db PostTailorResume ex_tailor)) = 200
   \<and> ''creditsRemaining'' \<notin> set (map fst (body (snd (serve ex_env ex_world ex_db PostTailorResume ex_tailor))))
   \<and> status (snd (serve ex_env_nokey ex_world ex_db PostTailorResume ex_tailor)) = 500
   \<and> ''error'' \<notin> set (map fst (body (snd (serve ex_env_nokey ex_world ex_db PostTailorResume ex_tailor))))"
  by code_simp

section \<open>Order of the steps\<close>

lemma cover_letter_steps_prefix:
  "prefix (List.map_filter step_of (fst (cover_letter_POST env w req)))
     [TokenValidation, TokenValidation, CreditDecrement, CompletionCall, DocumentInsert]"
  unfolding cover_letter_POST_def caught_def callOpenAI_def
  by (simp add: Let_def split: outcome.splits option.splits if_splits fetch_result.splits)

lemma cover_letter_steps_success:
  "status (snd (cover_letter_POST env w req)) = 200 \<longrightarrow>
   List.map_filter step_of (fst (cover_letter_POST env w req)) =
     [TokenValidation, TokenValidation, CreditDecrement, CompletionCall, DocumentInsert]"
  unfolding cover_letter_POST_def caught_def callOpenAI_def
  by (simp add: Let_def split: outcome.splits option.splits if_splits fetch_result.splits)

lemma generate_resume_steps_prefix:
  "prefix (List.map_filter step_of (fst (generate_resume_POST env w req)))
     [TokenValidation, TokenValidation, CreditDecrement, CompletionCall, DocumentInsert]"
  unfolding generate_resume_POST_def caught_def callOpenAI_def
  by (simp add: Let_def split: outcome.splits option.splits if_splits fetch_result.splits)

lemma generate_resume_steps_success:
  "status (snd (generate_resume_POST env w req)) = 200 \<longrightarrow>
   List.map_filter step_of (fst (generate_resume_POST env w req)) =
     [TokenValidation, TokenValidation, CreditDecrement, CompletionCall, DocumentInsert]"
  unfolding generate_resume_POST_def caught_def callOpenAI_def
  by (simp add: Let_def split: outcome.splits option.splits if_splits fetch_result.splits)

lemma tailor_resume_steps_prefix:
  "prefix (List.map_filter step_of (fst (fst (tailor_resume_POST env w req db))))
     [TokenValidation, TokenValidation, CompletionCall, DocumentInsert, CreditDecrement]"
  unfolding tailor_resume_POST_def caught_tailor_def
  by (simp add: Let_def split: outcome.splits option.splits if_splits)

lemma tailor_resume_steps_success:
  "status (snd (fst (tailor_resume_POST env w req db))) = 200 \<longrightarrow>
   List.map_filter step_of (fst (fst (tailor_resume_POST env w req db))) =
     [TokenValidation, TokenValidation, CompletionCall, DocumentInsert, CreditDecrement]"
  unfolding tailor_resume_POST_def caught_tailor_def
  by (simp add: Let_def split: outcome.splits option.splits if_splits)

text \<open>
  C3 (as amended). In the cover-letter and resume-generation routes the steps of a
  request are an initial part of: token validation (header check, then identity
  provider), credit decrement, completion call, document insert; followed by the JSON
  response; a successful request takes all of them, so the credit decrement comes before
  the completion call and before the insert. In the tailoring route the order is token
  validation, completion call, document insert, credit decrement, response: the balance
  is decremented last.
\<close>

theorem generation_step_order:
  "(\<exists>p. prefix p [TokenValidation, TokenValidation, CreditDecrement, CompletionCall, DocumentInsert]
        \<and> steps (cover_letter_POST env w req) = p @ [JsonResponse])
 \<and> (\<exists>p. prefix p [TokenValidation, TokenValidation, CreditDecrement, CompletionCall, DocumentInsert]
        \<and> steps (generate_resume_POST env w req) = p @ [JsonResponse])
 \<and> (\<exists>p. prefix p [TokenValidation, TokenValidation, CompletionCall, DocumentInsert, CreditDecrement]
        \<and> steps (fst (tailor_resume_POST env w req db)) = p @ [JsonResponse])
 \<and> (status (snd (cover_letter_POST env w req)) = 200 \<longrightarrow>
      steps (cover_letter_POST env w req) =
        [TokenValidation, TokenValidation, CreditDecrement, CompletionCall, DocumentInsert,
         JsonResponse])
 \<and> (status (snd (generate_resume_POST env w req)) = 200 \<longrightarrow>
      steps (generate_resume_POST env w req) =
        [TokenValidation, TokenValidation, CreditDecrement, CompletionCall, DocumentInsert,
         JsonResponse])
 \<and> (status (snd (fst (tailor_resume_POST env w req db))) = 200 \<longrightarrow>
      steps (fst (tailor_resume_POST env w req db)) =
        [TokenValidation, TokenValidation, CompletionCall, DocumentInsert, CreditDecrement,
         JsonResponse])"
  unfolding steps_def
  using cover_letter_steps_prefix [of env w req] cover_letter_steps_success [of env w req]
    generate_resume_steps_prefix [of env w req] generate_resume_steps_success [of env w req]
    tailor_resume_steps_prefix [of env w req db] tailor_resume_steps_success [of env w req db]
  by simp

theorem generation_step_order_witness:
  "status (snd (cover_letter_POST ex_env ex_world ex_tailor)) = 200
   \<and> steps (cover_letter_POST ex_env ex_world ex_tailor) =
        [TokenValidation, TokenValidation, CreditDecrement, CompletionCall, DocumentInsert,
         JsonResponse]
   \<and> status (snd (generate_resume_POST ex_env ex_world ex_generate)) = 200
   \<and> steps (generate_resume_POST ex_env ex_world ex_generate) =
        [TokenValidation, TokenValidation, CreditDecrement, CompletionCall, DocumentInsert,
         JsonResponse]"
proof -
  have a: "status (snd (cover_letter_POST ex_env ex_world ex_tailor)) = 200" by code_simp
  have b: "status (snd (generate_resume_POST ex_env ex_world ex_generate)) = 200" by code_simp
  from generation_step_order [of ex_env ex_world ex_tailor ex_db]
    generation_step_order [of ex_env ex_world ex_generate ex_db] a b
  show ?thesis by simp
qed

text \<open>
  The claim as stated fails on the tailoring route, which saves the document before it
  deducts the credit.
\<close>

theorem tailor_step_order_counterexample:
  "steps (serve ex_env ex_world ex_db PostTailorResume ex_tailor) =
     [TokenValidation, TokenValidation, CompletionCall, DocumentInsert, CreditDecrement,
      JsonResponse]"
  by code_simp

section \<open>Short resume texts\<close>

lemma tailor_short_resume:
  assumes "short_resume_text req" and "json_body req \<noteq> Returns VNull"
      and "tailor_module_loads env w"
  shows "fst (fst (tailor_resume_POST env w req db)) = [CheckToken]
       \<and> snd (tailor_resume_POST env w req db) = db
       \<and> status (snd (fst (tailor_resume_POST env w req db))) =
           (if \<exists>tok. bearer_token (authorization req) = Some tok \<and> tok \<noteq> [] then 400 else 401)"
proof -
  from assms(1) obtain b where b: "json_body req = Returns b"
    by (auto simp: short_resume_text_def split: outcome.splits)
  with assms(2) have n: "b \<noteq> VNull" by simp
  from resumeText_rejected_short [OF assms(1) b]
  have r: "resumeText_rejected w (property b ''resumeText'') = Returns True" .
  show ?thesis
    unfolding tailor_resume_POST_def
    by (simp add: assms(3) b n r split: option.splits)
qed

lemma tailor_null_body:
  assumes "json_body req = Returns VNull" and "tailor_module_loads env w"
      and "bearer_token (authorization req) = Some tok" and "tok \<noteq> []"
  shows "status (snd (fst (tailor_resume_POST env w req db))) = 500"
  unfolding tailor_resume_POST_def caught_tailor_def
  by (simp add: assms)

lemma trimmed_with_resumeText:
  "js name \<noteq> js ''resumeText'' \<Longrightarrow> trimmed w (with_resumeText b v) name = trimmed w b name"
  by (simp add: trimmed_def property_with_resumeText)

lemma hasContent_with_resumeText: "hasContent w (with_resumeText b v) = hasContent w b"
  by (simp add: hasContent_def trimmed_with_resumeText js_def cong: if_cong)

lemma trim_fields_with_resumeText:
  "\<forall>name \<in> set names. js name \<noteq> js ''resumeText''
   \<Longrightarrow> trim_fields w (with_resumeText b v) names = trim_fields w b names"
  by (induction names) (simp_all add: trim_fields.simps trimmed_with_resumeText split: outcome.splits)

lemma cover_letter_header_with_resumeText:
  "cover_letter_header w (with_resumeText b v) u j = cover_letter_header w b u j"
  by (simp add: cover_letter_header_def trimmed_with_resumeText property_with_resumeText js_def)

lemma generate_resume_ignores_resumeText:
  assumes "json_body req = Returns b"
  shows "generate_resume_POST env w (req\<lparr>json_body := Returns (with_resumeText b v)\<rparr>)
           = generate_resume_POST env w req"
  unfolding generate_resume_POST_def
  by (simp add: assms hasContent_with_resumeText trim_fields_with_resumeText
      trimmed_with_resumeText js_def Let_def
      cong: outcome.case_cong option.case_cong if_cong prod.case_cong)

lemma cover_letter_ignores_resumeText:
  assumes "json_body req = Returns b"
  shows "cover_letter_POST env w (req\<lparr>json_body := Returns (with_resumeText b v)\<rparr>)
           = cover_letter_POST env w req"
  unfolding cover_letter_POST_def
  by (simp add: assms cover_letter_header_with_resumeText property_with_resumeText js_def Let_def
      cong: outcome.case_cong option.case_cong if_cong prod.case_cong)

text \<open>
  C6 (as amended). A tailoring request whose JSON body is not \<open>null\<close> and has a resume
  text that is absent or, after trimming, shorter than 200 code units is rejected after
  the header check and before any other step, provided the module of the route could be
  loaded: no user lookup, no read or decrement of the balance, no completion call, and
  the \<open>profiles\<close> table is unchanged. The status is 400 when the request carries a
  bearer token and 401 when it does not. A \<open>null\<close> body with a bearer token makes the
  handler throw and is answered 500. The resume-generation and cover-letter routes take
  no resume text and make no such check: what they do and answer is the same whatever
  \<open>resumeText\<close> member is added to the body.
\<close>

theorem short_resume_rejected:
  "(short_resume_text req \<and> json_body req \<noteq> Returns VNull \<and> tailor_module_loads env w
    \<longrightarrow> fst (fst (tailor_resume_POST env w req db)) = [CheckToken]
       \<and> snd (tailor_resume_POST env w req db) = db
       \<and> ((\<exists>t. t \<noteq> [] \<and> authorization req = Some (js ''Bearer '' @ t))
            \<longrightarrow> status (snd (fst (tailor_resume_POST env w req db))) = 400)
       \<and> (\<not> (\<exists>t. t \<noteq> [] \<and> authorization req = Some (js ''Bearer '' @ t))
            \<longrightarrow> status (snd (fst (tailor_resume_POST env w req db))) = 401))
 \<and> (json_body req = Returns VNull \<and> tailor_module_loads env w
      \<and> (\<exists>t. t \<noteq> [] \<and> authorization req = Some (js ''Bearer '' @ t))
    \<longrightarrow> status (snd (fst (tailor_resume_POST env w req db))) = 500)
 \<and> (json_body req = Returns b
    \<longrightarrow> generate_resume_POST env w (req\<lparr>json_body := Returns (with_resumeText b v)\<rparr>)
          = generate_resume_POST env w req
      \<and> cover_letter_POST env w (req\<lparr>json_body := Returns (with_resumeText b v)\<rparr>)
          = cover_letter_POST env w req)"
proof -
  have 1: "fst (fst (tailor_resume_POST env w req db)) = [CheckToken]
       \<and> snd (tailor_resume_POST env w req db) = db
       \<and> ((\<exists>t. t \<noteq> [] \<and> authorization req = Some (js ''Bearer '' @ t))
            \<longrightarrow> status (snd (fst (tailor_resume_POST env w req db))) = 400)
       \<and> (\<not> (\<exists>t. t \<noteq> [] \<and> authorization req = Some (js ''Bearer '' @ t))
            \<longrightarrow> status (snd (fst (tailor_resume_POST env w req db))) = 401)"
    if "short_resume_text req" "json_body req \<noteq> Returns VNull" "tailor_module_loads env w"
    using tailor_short_resume [OF that, of db] bearer_token_present [of req] by simp
  have 2: "status (snd (fst (tailor_resume_POST env w req db))) = 500"
    if "json_body req = Returns VNull" "tailor_module_loads env w"
      "\<exists>t. t \<noteq> [] \<and> authorization req = Some (js ''Bearer '' @ t)"
  proof -
    from that(3) bearer_token_present [of req] obtain tok
      where "bearer_token (authorization req) = Some tok" "tok \<noteq> []" by blast
    with that(1,2) show ?thesis by (rule tailor_null_body)
  qed
  from 1 2 generate_resume_ignores_resumeText [of req b env w v]
    cover_letter_ignores_resumeText [of req b env w v]
  show ?thesis by blast
qed

theorem short_resume_rejected_witness:
  "short_resume_text ex_short
   \<and> authorization ex_short = Some (js ''Bearer '' @ js ''abc'')
   \<and> fst (fst (tailor_resume_POST ex_env ex_world ex_short ex_db)) = [CheckToken]
   \<and> snd (tailor_resume_POST ex_env ex_world ex_short ex_db) = ex_db
   \<and> status (snd (fst (tailor_resume_POST ex_env ex_world ex_short ex_db))) = 400
   \<and> json_body ex_null_body = Returns VNull
   \<and> status (snd (fst (tailor_resume_POST ex_env ex_world ex_null_body ex_db))) = 500
   \<and> generate_resume_POST ex_env ex_world
        (ex_generate\<lparr>json_body := Returns (with_resumeText
           (VObject [(js ''education'', VString (js ''BSc''))]) (VString (js ''short'')))\<rparr>)
       = generate_resume_POST ex_env ex_world ex_generate"
proof -
  have s: "short_resume_text ex_short" by code_simp
  have n: "json_body ex_short \<noteq> Returns VNull" by (simp add: ex_short_def)
  have l: "tailor_module_loads ex_env ex_world" by code_simp
  have a: "authorization ex_short = Some (js ''Bearer '' @ js ''abc'')"
    by (simp add: ex_short_def js_def)
  then have t: "\<exists>t. t \<noteq> [] \<and> authorization ex_short = Some (js ''Bearer '' @ t)"
    by (auto simp: js_def)
  have z: "json_body ex_null_body = Returns VNull" by (simp add: ex_null_body_def)
  have "authorization ex_null_body = Some (js ''Bearer '' @ js ''abc'')"
    by (simp add: ex_null_body_def js_def)
  then have t': "\<exists>t. t \<noteq> [] \<and> authorization ex_null_body = Some (js ''Bearer '' @ t)"
    by (auto simp: js_def)
  have g: "json_body ex_generate = Returns (VObject [(js ''education'', VString (js ''BSc''))])"
    by (simp add: ex_generate_def)
  from short_resume_rejected [of ex_short ex_env ex_world ex_db]
    short_resume_rejected [of ex_null_body ex_env ex_world ex_db]
    short_resume_rejected [where req = ex_generate
      and b = "VObject [(js ''education'', VString (js ''BSc''))]"
      and v = "VString (js ''short'')" and env = ex_env and w = ex_world]
    s n l a t z t' g
  show ?thesis by blast
qed

text \<open>
  The claim as stated fails on a tailoring request without a bearer token (401, not
  400); on the resume-generation route, which accepts a request without any resume
  text; and on tailoring requests that never reach the check: a \<open>null\<close> body (500), and
  any request when the key of the completion API is unset (500). A resume text that is
  not a string has no \<open>trim\<close> and is answered 500 as well.
\<close>

theorem short_resume_counterexample:
  "short_resume_text ex_anonymous
   \<and> status (snd (serve ex_env ex_world ex_db PostTailorResume ex_anonymous)) = 401
   \<and> short_resume_text ex_generate
   \<and> status (snd (serve ex_env ex_world ex_db PostGenerateResume ex_generate)) = 200
   \<and> short_resume_text ex_null_body
   \<and> status (snd (serve ex_env ex_world ex_db PostTailorResume ex_null_body)) = 500
   \<and> short_resume_text ex_short
   \<and> status (snd (serve ex_env_nokey ex_world ex_db PostTailorResume ex_short)) = 500
   \<and> status (snd (serve ex_env ex_world ex_db PostTailorResume ex_numeric_resume)) = 500"
  by code_simp

section \<open>Empty uploads\<close>

text \<open>
  C7. When the file field of an upload request reads back as a zero-length buffer (the
  route has read the field and the buffer is empty), the route responds with status 400;
  and on a request with an empty file neither the PDF nor the DOCX parsing library is
  invoked.
\<close>

theorem empty_upload_rejected:
  assumes "form_file req = Returns (Some (FormFile f))" and "file_bytes f = []"
  shows "ParsePdf \<notin> set (fst (resume_upload_POST env w req))
       \<and> ParseDocx \<notin> set (fst (resume_upload_POST env w req))
       \<and> (ReadFile \<in> set (fst (resume_upload_POST env w req))
            \<longrightarrow> status (snd (resume_upload_POST env w req)) = 400)"
  unfolding resume_upload_POST_def caught_upload_def
  by (auto simp: assms Let_def split: outcome.splits option.splits if_splits)

theorem empty_upload_rejected_witness:
  "form_file ex_empty_upload = Returns (Some (FormFile
      \<lparr>file_name = js ''cv.pdf'', file_type = js ''application/pdf'', file_bytes = []\<rparr>))
   \<and> ReadFile \<in> set (fst (resume_upload_POST ex_env ex_world ex_empty_upload))
   \<and> ParsePdf \<notin> set (fst (resume_upload_POST ex_env ex_world ex_empty_upload))
   \<and> ParseDocx \<notin> set (fst (resume_upload_POST ex_env ex_world ex_empty_upload))
   \<and> status (snd (resume_upload_POST ex_env ex_world ex_empty_upload)) = 400"
proof -
  let ?f = "\<lparr>file_name = js ''cv.pdf'', file_type = js ''application/pdf'', file_bytes = []\<rparr>"
  have a: "form_file ex_empty_upload = Returns (Some (FormFile ?f))"
    by (simp add: ex_empty_upload_def)
  have b: "file_bytes ?f = []" by simp
  have r: "ReadFile \<in> set (fst (resume_upload_POST ex_env ex_world ex_empty_upload))"
    by code_simp
  from empty_upload_rejected [OF a b, of ex_env ex_world] a r show ?thesis by blast
qed

section \<open>The uploaded text is normalised\<close>

lemma upload_insert_row:
  assumes "InsertDocument row \<in> set (fst (resume_upload_POST env w req))"
  shows "\<exists>extracted. ins_content_text row = normalizeText extracted
           \<and> 200 \<le> length (normalizeText extracted)"
  using assms
  unfolding resume_upload_POST_def caught_upload_def
  by (auto simp: Let_def
      split: outcome.splits option.splits if_splits form_entry.splits extraction.splits)

text \<open>
  C9. Every document row the resume-upload route inserts has a \<open>content_text\<close> that
  is fully newline-normalised: it contains no carriage return, no space or tab
  immediately before a line feed, no run of three or more line feeds, and no leading or
  trailing white space; and it is at least 200 code units long.
\<close>

theorem upload_row_normalized:
  assumes "InsertDocument row \<in> set (fst (resume_upload_POST env w req))"
  shows "CR \<notin> set (ins_content_text row)
       \<and> \<not> sublist [SP, LF] (ins_content_text row)
       \<and> \<not> sublist [TAB, LF] (ins_content_text row)
       \<and> \<not> sublist [LF, LF, LF] (ins_content_text row)
       \<and> \<not> is_js_whitespace (hd (ins_content_text row))
       \<and> \<not> is_js_whitespace (last (ins_content_text row))
       \<and> 200 \<le> length (ins_content_text row)"
proof -
  from upload_insert_row [OF assms] obtain extracted
    where t: "ins_content_text row = normalizeText extracted"
      and len: "200 \<le> length (normalizeText extracted)"
    by blast
  from len have ne: "normalizeText extracted \<noteq> []" by auto
  show ?thesis
    unfolding t
    using normalizeText_no_CR [of extracted]
      normalizeText_no_blank_nl [of SP extracted] normalizeText_no_blank_nl [of TAB extracted]
      normalizeText_no_triple [of extracted] normalizeText_ends [OF ne] len
    by (simp add: is_blank_def)
qed

theorem upload_row_normalized_witness:
  "InsertDocument ex_uploaded_row \<in> set (fst (resume_upload_POST ex_env ex_world ex_text_upload))
   \<and> CR \<notin> set (ins_content_text ex_uploaded_row)
   \<and> \<not> sublist [SP, LF] (ins_content_text ex_uploaded_row)
   \<and> \<not> sublist [TAB, LF] (ins_content_text ex_uploaded_row)
   \<and> \<not> sublist [LF, LF, LF] (ins_content_text ex_uploaded_row)
   \<and> \<not> is_js_whitespace (hd (ins_content_text ex_uploaded_row))
   \<and> \<not> is_js_whitespace (last (ins_content_text ex_uploaded_row))
   \<and> 200 \<le> length (ins_content_text ex_uploaded_row)"
proof -
  have h: "InsertDocument ex_uploaded_row
             \<in> set (fst (resume_upload_POST ex_env ex_world ex_text_upload))"
    by code_simp
  from upload_row_normalized [OF h] h show ?thesis by blast
qed

end
